theory Spec2Isabelle
  imports Main "HOL-Library.AList"
begin

section \<open>The WooCommerce REST client of the fence calculator\<close>

text \<open>
  A shallow embedding of \<^verbatim>\<open>src/services/woocommerce.api.js\<close>: the endpoint
  configuration, the URL builder, the request cascade over the endpoint formats and the
  mock-data generator it falls back to.

  What the platform supplies is a parameter of the model, collected in the record
  \<open>world\<close> below: the URL parser behind \<^verbatim>\<open>new URL\<close>, the clock behind
  \<^verbatim>\<open>new Date()\<close> and the network behind \<^verbatim>\<open>fetch\<close>. Console output is not
  modelled, and neither is the wall-clock side of the abort timer: an aborted call is one
  of the ways \<^verbatim>\<open>fetch\<close> may reject.

  Strings are HOL strings: sequences of 8-bit characters, read as the code units
  \<open>0..255\<close> (Latin-1) of a JavaScript string. Numbers are the integers and \<open>NaN\<close>;
  the decimal rendering and \<^verbatim>\<open>parseInt\<close> below agree with JavaScript on the integers
  a double holds exactly.
\<close>

subsection \<open>Strings\<close>

text \<open>\<^verbatim>\<open>s.startsWith(p)\<close>\<close>

fun startsWith :: "string \<Rightarrow> string \<Rightarrow> bool" where
  "startsWith s [] = True"
| "startsWith [] (p # ps) = False"
| "startsWith (c # cs) (p # ps) = (c = p \<and> startsWith cs ps)"

text \<open>\<^verbatim>\<open>s.includes(p)\<close>: \<open>p\<close> occurs in \<open>s\<close> as a contiguous substring.\<close>

fun str_includes :: "string \<Rightarrow> string \<Rightarrow> bool" where
  "str_includes [] p = (p = [])"
| "str_includes (c # cs) p = (startsWith (c # cs) p \<or> str_includes cs p)"

text \<open>\<^verbatim>\<open>s.replace(p, r)\<close> with a string pattern: the first occurrence only. The
  replacement strings of the source hold no \<^verbatim>\<open>$\<close> pattern.\<close>

fun replace :: "string \<Rightarrow> string \<Rightarrow> string \<Rightarrow> string" where
  "replace [] p r = (if p = [] then r else [])"
| "replace (c # cs) p r =
     (if startsWith (c # cs) p then r @ drop (length p) (c # cs) else c # replace cs p r)"

text \<open>\<^verbatim>\<open>s.split('/').pop()\<close>: what follows the last slash, the whole string when
  there is none.\<close>

fun split_pop :: "string \<Rightarrow> string" where
  "split_pop [] = []"
| "split_pop (c # cs) = (if CHR ''/'' \<in> set cs then split_pop cs
                         else if c = CHR ''/'' then cs else c # cs)"

definition upper_chars :: string where
  "upper_chars = ''ABCDEFGHIJKLMNOPQRSTUVWXYZ'' @
     [CHR 0xC0, CHR 0xC1, CHR 0xC2, CHR 0xC3, CHR 0xC4, CHR 0xC5, CHR 0xC6, CHR 0xC7,
      CHR 0xC8, CHR 0xC9, CHR 0xCA, CHR 0xCB, CHR 0xCC, CHR 0xCD, CHR 0xCE, CHR 0xCF,
      CHR 0xD0, CHR 0xD1, CHR 0xD2, CHR 0xD3, CHR 0xD4, CHR 0xD5, CHR 0xD6,
      CHR 0xD8, CHR 0xD9, CHR 0xDA, CHR 0xDB, CHR 0xDC, CHR 0xDD, CHR 0xDE]"

definition lower_chars :: string where
  "lower_chars = ''abcdefghijklmnopqrstuvwxyz'' @
     [CHR 0xE0, CHR 0xE1, CHR 0xE2, CHR 0xE3, CHR 0xE4, CHR 0xE5, CHR 0xE6, CHR 0xE7,
      CHR 0xE8, CHR 0xE9, CHR 0xEA, CHR 0xEB, CHR 0xEC, CHR 0xED, CHR 0xEE, CHR 0xEF,
      CHR 0xF0, CHR 0xF1, CHR 0xF2, CHR 0xF3, CHR 0xF4, CHR 0xF5, CHR 0xF6,
      CHR 0xF8, CHR 0xF9, CHR 0xFA, CHR 0xFB, CHR 0xFC, CHR 0xFD, CHR 0xFE]"

text \<open>\<^verbatim>\<open>s.toLowerCase()\<close> on code units below 256: the letters \<open>A..Z\<close> and the
  capital letters of Latin-1 move to their small forms, every other unit stays.\<close>

definition lower_char :: "char \<Rightarrow> char" where
  "lower_char c = (case map_of (zip upper_chars lower_chars) c of None \<Rightarrow> c | Some d \<Rightarrow> d)"

definition toLowerCase :: "string \<Rightarrow> string" where
  "toLowerCase s = map lower_char s"

subsection \<open>Numbers\<close>

datatype jsnum = NaN | Fin int

text \<open>\<^verbatim>\<open>a === b\<close> on numbers: \<open>NaN\<close> equals nothing, itself included.\<close>

definition num_eq :: "jsnum \<Rightarrow> jsnum \<Rightarrow> bool" where
  "num_eq a b = (a \<noteq> NaN \<and> a = b)"

fun num_add :: "jsnum \<Rightarrow> jsnum \<Rightarrow> jsnum" where
  "num_add (Fin a) (Fin b) = Fin (a + b)"
| "num_add a b = NaN"

text \<open>The decimal digits of a natural number, the most significant first.\<close>

fun show_nat :: "nat \<Rightarrow> string" where
  "show_nat n = (if n < 10 then [''0123456789'' ! n]
                 else show_nat (n div 10) @ [''0123456789'' ! (n mod 10)])"

declare show_nat.simps [simp del]

text \<open>\<^verbatim>\<open>String(n)\<close>, as a template literal renders a number.\<close>

fun num_to_string :: "jsnum \<Rightarrow> string" where
  "num_to_string NaN = ''NaN''"
| "num_to_string (Fin i) = (if i < 0 then CHR ''-'' # show_nat (nat (- i)) else show_nat (nat i))"

text \<open>The white space \<^verbatim>\<open>parseInt\<close> skips, among the code units below 256: tab, line
  feed, vertical tab, form feed, carriage return, space and no-break space.\<close>

definition is_space :: "char \<Rightarrow> bool" where
  "is_space c = (c \<in> set [CHR 0x09, CHR 0x0A, CHR 0x0B, CHR 0x0C, CHR 0x0D, CHR 0x20, CHR 0xA0])"

text \<open>The digits of radix 10 and of radix 16, the only two \<^verbatim>\<open>parseInt\<close> reaches
  here.\<close>

definition radix_digits :: "int \<Rightarrow> string" where
  "radix_digits radix = (if radix = 16 then ''0123456789abcdef'' else ''0123456789'')"

fun index_in :: "char \<Rightarrow> string \<Rightarrow> int option" where
  "index_in c [] = None"
| "index_in c (d # ds) = (if c = d then Some 0 else map_option (\<lambda>i. i + 1) (index_in c ds))"

text \<open>The value of a digit in the radix, \<open>None\<close> for any other character.\<close>

definition digit_val :: "int \<Rightarrow> char \<Rightarrow> int option" where
  "digit_val radix c = index_in (lower_char c) (radix_digits radix)"

definition digits_val :: "int \<Rightarrow> string \<Rightarrow> int" where
  "digits_val radix ds =
     foldl (\<lambda>acc c. acc * radix + (case digit_val radix c of None \<Rightarrow> 0 | Some d \<Rightarrow> d)) 0 ds"

text \<open>\<^verbatim>\<open>parseInt(s)\<close> with no radix argument: leading white space, an optional sign,
  an optional \<^verbatim>\<open>0x\<close> prefix that switches to radix 16, then the longest run of
  digits; \<open>NaN\<close> when that run is empty.\<close>

definition parseInt :: "string \<Rightarrow> jsnum" where
  "parseInt s =
     (let t = dropWhile is_space s;
          neg = (t \<noteq> [] \<and> hd t = CHR ''-'');
          t1 = (if t \<noteq> [] \<and> (hd t = CHR ''-'' \<or> hd t = CHR ''+'') then tl t else t);
          hex = (startsWith t1 ''0x'' \<or> startsWith t1 ''0X'');
          radix = (if hex then 16 else 10);
          t2 = (if hex then drop 2 t1 else t1);
          ds = takeWhile (\<lambda>c. digit_val radix c \<noteq> None) t2
      in if ds = [] then NaN
         else Fin (if neg then - digits_val radix ds else digits_val radix ds))"

subsection \<open>Values and objects\<close>

text \<open>A JavaScript value. An object is the list of its own properties in the order
  \<^verbatim>\<open>Object.keys\<close> enumerates them.\<close>

datatype json =
    JUndefined
  | JNull
  | JBool bool
  | JNum jsnum
  | JStr string
  | JArr "json list"
  | JObj "(string \<times> json) list"

type_synonym jobj = "(string \<times> json) list"

text \<open>The truth value of a condition: \<^verbatim>\<open>if (v)\<close>.\<close>

fun truthy :: "json \<Rightarrow> bool" where
  "truthy JUndefined = False"
| "truthy JNull = False"
| "truthy (JBool b) = b"
| "truthy (JNum n) = (n \<noteq> NaN \<and> n \<noteq> Fin 0)"
| "truthy (JStr s) = (s \<noteq> [])"
| "truthy (JArr xs) = True"
| "truthy (JObj ps) = True"

fun join :: "string \<Rightarrow> string list \<Rightarrow> string" where
  "join sep [] = []"
| "join sep [x] = x"
| "join sep (x # y # ys) = x @ sep @ join sep (y # ys)"

text \<open>The conversion of a value to a string, as \<^verbatim>\<open>parseInt\<close> and
  \<^verbatim>\<open>URLSearchParams.append\<close> apply it to their argument.\<close>

fun to_string :: "json \<Rightarrow> string" where
  "to_string JUndefined = ''undefined''"
| "to_string JNull = ''null''"
| "to_string (JBool b) = (if b then ''true'' else ''false'')"
| "to_string (JNum n) = num_to_string n"
| "to_string (JStr s) = s"
| "to_string (JArr xs) =
     join '','' (map (\<lambda>x. if x = JUndefined \<or> x = JNull then [] else to_string x) xs)"
| "to_string (JObj ps) = ''[object Object]''"

text \<open>\<^verbatim>\<open>a === b\<close> where \<open>a\<close> is a number or a string of the program's own data; an
  operand of another type is never equal to it.\<close>

fun strict_eq :: "json \<Rightarrow> json \<Rightarrow> bool" where
  "strict_eq (JNum a) (JNum b) = num_eq a b"
| "strict_eq (JStr a) (JStr b) = (a = b)"
| "strict_eq a b = False"

text \<open>\<^verbatim>\<open>o[k]\<close> on the property list: \<open>None\<close> when \<open>o\<close> has no property \<open>k\<close> (the
  read then yields \<^verbatim>\<open>undefined\<close>).\<close>

definition obj_get :: "jobj \<Rightarrow> string \<Rightarrow> json option" where
  "obj_get ob k = map_of ob k"

fun get_prop :: "json \<Rightarrow> string \<Rightarrow> json" where
  "get_prop (JObj ps) k = (case obj_get ps k of None \<Rightarrow> JUndefined | Some v \<Rightarrow> v)"
| "get_prop v k = JUndefined"

text \<open>An array index: the canonical decimal form of an integer below \<open>2^32 - 1\<close>.
  \<^verbatim>\<open>Object.keys\<close> lists such keys first, in ascending order, and every other key after
  them in the order of creation.\<close>

definition is_array_index :: "string \<Rightarrow> bool" where
  "is_array_index k =
     (k \<noteq> [] \<and> list_all (\<lambda>c. index_in c (radix_digits 10) \<noteq> None) k
      \<and> (k = ''0'' \<or> hd k \<noteq> CHR ''0'') \<and> digits_val 10 k < 4294967295)"

fun insert_index :: "string \<Rightarrow> json \<Rightarrow> jobj \<Rightarrow> jobj" where
  "insert_index k v [] = [(k, v)]"
| "insert_index k v (p # ps) =
     (if is_array_index (fst p) \<and> digits_val 10 (fst p) < digits_val 10 k
      then p # insert_index k v ps else (k, v) # p # ps)"

text \<open>Defining property \<open>k\<close> on an object: an existing property keeps its place and takes
  the new value; a new one goes to the end, or among the array indices when it is one.\<close>

definition obj_set :: "string \<Rightarrow> json \<Rightarrow> jobj \<Rightarrow> jobj" where
  "obj_set k v ob =
     (if k \<in> set (map fst ob) \<or> \<not> is_array_index k then AList.update k v ob
      else insert_index k v ob)"

text \<open>\<^verbatim>\<open>{ ...base, k1: v1, k2: v2 }\<close> and \<^verbatim>\<open>{ k1: v1, ...params }\<close>: the properties
  on the right are defined one after the other on a copy of the object on the left.\<close>

definition spread :: "jobj \<Rightarrow> jobj \<Rightarrow> jobj" where
  "spread base props = foldl (\<lambda>ob (k, v). obj_set k v ob) base props"

subsection \<open>Errors\<close>

text \<open>What a \<^verbatim>\<open>throw\<close> carries, or a rejected promise: the error's class and its
  message.\<close>

datatype js_error =
    Error string
  | TypeError string
  | SyntaxError string
  | AbortError string

subsection \<open>Settings and configuration\<close>

text \<open>\<^verbatim>\<open>API_SETTINGS\<close>. The debug and log-level settings only steer console output.\<close>

definition USE_MOCK_DATA :: bool where
  "USE_MOCK_DATA = True"

definition REQUEST_TIMEOUT :: int where
  "REQUEST_TIMEOUT = 15000"

definition MAX_RETRIES :: int where
  "MAX_RETRIES = 3"

definition RETRY_DELAY :: int where
  "RETRY_DELAY = 1000"

text \<open>The environment variables the module reads when it is loaded; \<open>None\<close> is a
  variable that is not set.\<close>

record env =
  REACT_APP_WOOCOMMERCE_URL :: "string option"
  REACT_APP_WOOCOMMERCE_CONSUMER_KEY :: "string option"
  REACT_APP_WOOCOMMERCE_CONSUMER_SECRET :: "string option"

text \<open>\<^verbatim>\<open>process.env.X || d\<close>: the default also replaces the empty string.\<close>

definition or_default :: "string option \<Rightarrow> string \<Rightarrow> string" where
  "or_default v d = (case v of None \<Rightarrow> d | Some s \<Rightarrow> if s = [] then d else s)"

definition primaryDomain :: "env \<Rightarrow> string" where
  "primaryDomain e = or_default (REACT_APP_WOOCOMMERCE_URL e) ''https://example.com''"

text \<open>\<^verbatim>\<open>getAlternativeUrls\<close>. Its first argument is the platform's URL parser: the
  host name of the parsed URL, \<open>None\<close> when \<^verbatim>\<open>new URL(url)\<close> throws.\<close>

definition getAlternativeUrls :: "(string \<Rightarrow> string option) \<Rightarrow> string \<Rightarrow> string list" where
  "getAlternativeUrls hostname url =
     (if url = [] then []
      else case hostname url of
             None \<Rightarrow> []
           | Some h \<Rightarrow> if startsWith h ''www.'' then [replace url ''www.'' []]
                      else [replace url ''://'' ''://www.''])"

record config =
  endpointFormats :: "string list"
  alternativeDomains :: "string list"
  consumerKey :: string
  consumerSecret :: string

definition API_CONFIG :: "(string \<Rightarrow> string option) \<Rightarrow> env \<Rightarrow> config" where
  "API_CONFIG hostname e =
     \<lparr> endpointFormats =
         [primaryDomain e @ ''/wp-json/wc/v3'',
          primaryDomain e @ ''/index.php/wp-json/wc/v3'',
          primaryDomain e @ ''/wp-json/wc/v3''],
       alternativeDomains = getAlternativeUrls hostname (primaryDomain e),
       consumerKey = or_default (REACT_APP_WOOCOMMERCE_CONSUMER_KEY e) [],
       consumerSecret = or_default (REACT_APP_WOOCOMMERCE_CONSUMER_SECRET e) [] \<rparr>"

subsection \<open>The platform\<close>

text \<open>A URL object: the string \<^verbatim>\<open>new URL\<close> parsed, and the entries appended to its
  \<^verbatim>\<open>searchParams\<close> since, in order. \<^verbatim>\<open>url.toString()\<close> serialises exactly these
  two, so the model hands the pair on where the source hands on the string.\<close>

record url =
  url_input :: string
  url_appended :: "(string \<times> string) list"

text \<open>The options \<^verbatim>\<open>woocommerceRequest\<close> passes to \<^verbatim>\<open>fetch\<close>, the abort signal
  apart. \<open>fo_body\<close> is the value \<^verbatim>\<open>JSON.stringify\<close> is applied to.\<close>

record fetch_options =
  fo_method :: string
  fo_headers :: "(string \<times> string) list"
  fo_timeout :: int
  fo_body :: "json option"

text \<open>A response: its status line, and what \<^verbatim>\<open>response.json()\<close> settles to.\<close>

record response =
  status :: int
  statusText :: string
  json_body :: "js_error + json"

definition response_ok :: "response \<Rightarrow> bool" where
  "response_ok r = (200 \<le> status r \<and> status r \<le> 299)"

datatype fetch_result = Rejected js_error | Resolved response

text \<open>
  The world a request runs in:
  \<^item> \<open>url_hostname s\<close>: the URL parser, as for \<open>getAlternativeUrls\<close>;
  \<^item> \<open>now_iso k\<close>: what the \<open>k\<close>-th \<^verbatim>\<open>new Date().toISOString()\<close> returns;
  \<^item> \<open>fetch i u opts\<close>: how the \<open>i\<close>-th call of \<^verbatim>\<open>fetch\<close> made by a request settles.
\<close>

record world =
  url_hostname :: "string \<Rightarrow> string option"
  now_iso :: "nat \<Rightarrow> string"
  fetch :: "nat \<Rightarrow> url \<Rightarrow> fetch_options \<Rightarrow> fetch_result"

subsection \<open>Building the URL\<close>

text \<open>\<^verbatim>\<open>xs[i]\<close> on an array: \<open>None\<close> stands for \<^verbatim>\<open>undefined\<close>.\<close>

definition array_at :: "'a list \<Rightarrow> nat \<Rightarrow> 'a option" where
  "array_at xs i = (if i < length xs then Some (xs ! i) else None)"

text \<open>\<^verbatim>\<open>API_CONFIG.endpointFormats[formatIndex] || API_CONFIG.endpointFormats[0]\<close>\<close>

definition select_format :: "config \<Rightarrow> nat \<Rightarrow> string option" where
  "select_format cfg formatIndex =
     (case array_at (endpointFormats cfg) formatIndex of
        None \<Rightarrow> array_at (endpointFormats cfg) 0
      | Some f \<Rightarrow> if f = [] then array_at (endpointFormats cfg) 0 else Some f)"

text \<open>The loop over \<^verbatim>\<open>Object.keys(allParams)\<close>: one entry for every key whose value
  is neither \<^verbatim>\<open>undefined\<close> nor \<^verbatim>\<open>null\<close>.\<close>

definition append_entry :: "jobj \<Rightarrow> string \<Rightarrow> (string \<times> string) list" where
  "append_entry allParams key =
     (case obj_get allParams key of
        None \<Rightarrow> []
      | Some v \<Rightarrow> if v = JUndefined \<or> v = JNull then [] else [(key, to_string v)])"

definition query_entries :: "jobj \<Rightarrow> (string \<times> string) list" where
  "query_entries allParams = concat (map (append_entry allParams) (map fst allParams))"

text \<open>\<^verbatim>\<open>buildWooCommerceUrl\<close>. \<^verbatim>\<open>new URL\<close> throws a \<^verbatim>\<open>TypeError\<close> on a string the
  parser rejects (the wording of its message is the platform's). The credentials are the
  first two properties of \<^verbatim>\<open>allParams\<close>; the query parameters are spread over them.\<close>

definition buildWooCommerceUrl ::
    "world \<Rightarrow> config \<Rightarrow> string \<Rightarrow> jobj \<Rightarrow> nat \<Rightarrow> js_error + url" where
  "buildWooCommerceUrl w cfg endpoint params formatIndex =
     (let endpointFormat = (case select_format cfg formatIndex of
                              None \<Rightarrow> ''undefined'' | Some f \<Rightarrow> f);
          input = endpointFormat @ ''/'' @ endpoint;
          allParams = spread [(''consumer_key'', JStr (consumerKey cfg)),
                              (''consumer_secret'', JStr (consumerSecret cfg))] params
      in case url_hostname w input of
           None \<Rightarrow> Inl (TypeError ''Invalid URL'')
         | Some h \<Rightarrow> Inr \<lparr> url_input = input, url_appended = query_entries allParams \<rparr>)"

subsection \<open>Mock data\<close>

text \<open>\<^verbatim>\<open>generateMockCategories\<close>: sixteen fixed categories, whatever the arguments.\<close>

definition mock_category :: "int \<Rightarrow> string \<Rightarrow> string \<Rightarrow> int \<Rightarrow> json" where
  "mock_category i n s c =
     JObj [(''id'', JNum (Fin i)), (''name'', JStr n), (''slug'', JStr s), (''count'', JNum (Fin c))]"

definition generateMockCategories :: "jobj \<Rightarrow> json" where
  "generateMockCategories params = JArr
     [mock_category 53 ''Vinyl Fence'' ''vinyl-fence'' 15,
      mock_category 49 ''Aluminum Fence'' ''aluminum-fence'' 10,
      mock_category 439 ''Wood Fence'' ''wood-fence'' 12,
      mock_category 296 ''Chain Link Fence'' ''chain-link-fence'' 8,
      mock_category 289 ''Vinyl Panels'' ''vinyl-panels'' 6,
      mock_category 290 ''Vinyl Gates'' ''vinyl-gates'' 4,
      mock_category 291 ''Vinyl Posts'' ''vinyl-posts'' 3,
      mock_category 292 ''Aluminum Panels'' ''aluminum-panels'' 5,
      mock_category 293 ''Aluminum Posts'' ''aluminum-posts'' 3,
      mock_category 295 ''Aluminum Gates'' ''aluminum-gates'' 4,
      mock_category 297 ''Chain Link Fabric'' ''chain-link-fabric'' 4,
      mock_category 298 ''Chain Link Gates'' ''chain-link-gates'' 3,
      mock_category 299 ''Chain Link Posts'' ''chain-link-posts'' 3,
      mock_category 300 ''Wood Posts'' ''wood-posts'' 3,
      mock_category 301 ''Wood Panels'' ''wood-panels'' 5,
      mock_category 302 ''Wood Gates'' ''wood-gates'' 4]"

text \<open>The object literals for a product's category and attribute.\<close>

definition category_ref :: "int \<Rightarrow> string \<Rightarrow> string \<Rightarrow> json" where
  "category_ref i n s = JObj [(''id'', JNum (Fin i)), (''name'', JStr n), (''slug'', JStr s)]"

definition attribute :: "int \<Rightarrow> string \<Rightarrow> int \<Rightarrow> bool \<Rightarrow> bool \<Rightarrow> string list \<Rightarrow> json" where
  "attribute i n pos vis var opts =
     JObj [(''id'', JNum (Fin i)), (''name'', JStr n), (''position'', JNum (Fin pos)),
           (''visible'', JBool vis), (''variation'', JBool var),
           (''options'', JArr (map JStr opts))]"

text \<open>The \<^verbatim>\<open>template\<close> object of \<^verbatim>\<open>generateMockProduct\<close>. It reads the clock four
  times, in the order of the literal: readings \<open>n\<close> to \<open>n + 3\<close>.\<close>

definition product_template :: "world \<Rightarrow> nat \<Rightarrow> jsnum \<Rightarrow> jobj" where
  "product_template w n productId =
     [(''id'', JNum productId),
      (''name'', JStr (''Mock Product '' @ num_to_string productId)),
      (''slug'', JStr (''mock-product-'' @ num_to_string productId)),
      (''permalink'', JStr (''https://example.com/product/mock-product-'' @ num_to_string productId)),
      (''date_created'', JStr (now_iso w n)),
      (''date_modified'', JStr (now_iso w (n + 1))),
      (''type'', JStr ''simple''),
      (''status'', JStr ''publish''),
      (''featured'', JBool False),
      (''catalog_visibility'', JStr ''visible''),
      (''description'', JStr ''This is a mock product description.''),
      (''short_description'', JStr ''Mock product short description.''),
      (''sku'', JStr (''SKU-'' @ num_to_string productId)),
      (''price'', JStr ''99.99''),
      (''regular_price'', JStr ''99.99''),
      (''sale_price'', JStr []),
      (''on_sale'', JBool False),
      (''purchasable'', JBool True),
      (''total_sales'', JNum (Fin 0)),
      (''virtual'', JBool False),
      (''downloadable'', JBool False),
      (''downloads'', JArr []),
      (''download_limit'', JNum (Fin (- 1))),
      (''download_expiry'', JNum (Fin (- 1))),
      (''external_url'', JStr []),
      (''button_text'', JStr []),
      (''tax_status'', JStr ''taxable''),
      (''tax_class'', JStr []),
      (''manage_stock'', JBool False),
      (''stock_quantity'', JNull),
      (''stock_status'', JStr ''instock''),
      (''backorders'', JStr ''no''),
      (''backorders_allowed'', JBool False),
      (''backordered'', JBool False),
      (''sold_individually'', JBool False),
      (''weight'', JStr []),
      (''dimensions'', JObj [(''length'', JStr []), (''width'', JStr []), (''height'', JStr [])]),
      (''shipping_required'', JBool True),
      (''shipping_taxable'', JBool True),
      (''shipping_class'', JStr []),
      (''shipping_class_id'', JNum (Fin 0)),
      (''reviews_allowed'', JBool True),
      (''average_rating'', JStr ''0.00''),
      (''rating_count'', JNum (Fin 0)),
      (''related_ids'', JArr []),
      (''upsell_ids'', JArr []),
      (''cross_sell_ids'', JArr []),
      (''parent_id'', JNum (Fin 0)),
      (''purchase_note'', JStr []),
      (''categories'', JArr []),
      (''tags'', JArr []),
      (''images'', JArr
         [JObj [(''id'', JNum (num_add (Fin 1000) productId)),
                (''date_created'', JStr (now_iso w (n + 2))),
                (''date_modified'', JStr (now_iso w (n + 3))),
                (''src'', JStr (''https://example.com/wp-content/uploads/mock-product-''
                                @ num_to_string productId @ ''.jpg'')),
                (''name'', JStr (''Mock Product '' @ num_to_string productId)),
                (''alt'', JStr (''Mock Product '' @ num_to_string productId))]]),
      (''attributes'', JArr []),
      (''default_attributes'', JArr []),
      (''variations'', JArr []),
      (''grouped_products'', JArr []),
      (''menu_order'', JNum (Fin 0)),
      (''meta_data'', JArr []),
      (''_links'', JObj
         [(''self'', JArr [JObj [(''href'', JStr (''https://example.com/wp-json/wc/v3/products/''
                                                  @ num_to_string productId))]]),
          (''collection'', JArr [JObj [(''href'', JStr ''https://example.com/wp-json/wc/v3/products'')]])])]"

text \<open>The properties the three return statements of \<^verbatim>\<open>generateMockProduct\<close> lay
  over the template.\<close>

definition vinyl_privacy_panel :: jobj where
  "vinyl_privacy_panel =
     [(''name'', JStr ''Vinyl Privacy Panel''),
      (''price'', JStr ''89.99''),
      (''regular_price'', JStr ''89.99''),
      (''categories'', JArr [category_ref 53 ''Vinyl Fence'' ''vinyl-fence'',
                             category_ref 289 ''Vinyl Panels'' ''vinyl-panels'']),
      (''attributes'', JArr [attribute 1 ''Width'' 0 True False [''6 ft'', ''8 ft''],
                             attribute 2 ''Height'' 1 True False [''4 ft'', ''6 ft'', ''8 ft''],
                             attribute 3 ''Color'' 2 True False [''White'', ''Almond'']]),
      (''images'', JArr [JObj [(''id'', JNum (Fin 101)),
                               (''src'', JStr ''https://example.com/vinyl-privacy.jpg''),
                               (''name'', JStr ''Vinyl Privacy Panel''),
                               (''alt'', JStr ''Vinyl Privacy Panel'')]]),
      (''description'', JStr (''Our premium vinyl privacy panels are constructed with durable, ''
         @ ''low-maintenance materials that won't fade, crack, or peel. These panels provide ''
         @ ''complete privacy while maintaining a clean, attractive appearance.'')),
      (''short_description'', JStr ''Durable, low-maintenance vinyl privacy fence panels.'')]"

definition vinyl_gate :: jobj where
  "vinyl_gate =
     [(''name'', JStr ''Vinyl Gate''),
      (''price'', JStr ''219.99''),
      (''regular_price'', JStr ''219.99''),
      (''categories'', JArr [category_ref 53 ''Vinyl Fence'' ''vinyl-fence'',
                             category_ref 290 ''Vinyl Gates'' ''vinyl-gates'']),
      (''attributes'', JArr [attribute 1 ''Width'' 0 True True [''3 ft'', ''4 ft'', ''5 ft'', ''6 ft''],
                             attribute 2 ''Height'' 1 True True [''4 ft'', ''6 ft''],
                             attribute 3 ''Style'' 2 True True [''Privacy'', ''Picket'']]),
      (''images'', JArr [JObj [(''id'', JNum (Fin 104)),
                               (''src'', JStr ''https://example.com/vinyl-gate.jpg''),
                               (''name'', JStr ''Vinyl Gate''),
                               (''alt'', JStr ''Vinyl Gate'')]]),
      (''description'', JStr (''Our vinyl gates match perfectly with our vinyl fence panels for ''
         @ ''a consistent, elegant look. All hardware included for easy installation.'')),
      (''short_description'', JStr ''High-quality vinyl gate to match your vinyl fence.'')]"

definition default_mock_product :: "jsnum \<Rightarrow> jobj" where
  "default_mock_product productId =
     [(''name'', JStr (''Mock Product '' @ num_to_string productId)),
      (''fallback'', JBool True),
      (''description'', JStr
         ''This is a fallback product because the requested product could not be found.''),
      (''attributes'', JArr [attribute 1 ''Width'' 0 True False [''6 ft'', ''8 ft''],
                             attribute 2 ''Height'' 1 True False [''4 ft'', ''6 ft'']])]"

text \<open>\<^verbatim>\<open>generateMockProduct\<close>: the product, and the number of clock readings taken
  once it returns.\<close>

definition generateMockProduct :: "world \<Rightarrow> nat \<Rightarrow> jsnum \<Rightarrow> json \<times> nat" where
  "generateMockProduct w n productId =
     (let template = product_template w n productId
      in (if num_eq productId (Fin 101) then JObj (spread template vinyl_privacy_panel)
          else if num_eq productId (Fin 104) then JObj (spread template vinyl_gate)
          else JObj (spread template (default_mock_product productId)),
          n + 4))"

text \<open>The entries of \<^verbatim>\<open>baseProducts\<close> in \<^verbatim>\<open>generateMockProducts\<close>: object
  literals of one fixed shape, read by the two filters and by the final
  \<^verbatim>\<open>map\<close>, which keeps the \<open>id\<close> only.\<close>

record base_category =
  cat_id :: int
  cat_name :: string
  cat_slug :: string

record base_attribute =
  attr_id :: int
  attr_name :: string
  attr_position :: int
  attr_visible :: bool
  attr_variation :: bool
  attr_options :: "string list"

record base_product =
  bp_id :: int
  bp_name :: string
  bp_price :: string
  bp_categories :: "base_category list"
  bp_attributes :: "base_attribute list"

definition base_cat :: "int \<Rightarrow> string \<Rightarrow> string \<Rightarrow> base_category" where
  "base_cat i n s = \<lparr> cat_id = i, cat_name = n, cat_slug = s \<rparr>"

definition base_attr ::
    "int \<Rightarrow> string \<Rightarrow> int \<Rightarrow> bool \<Rightarrow> bool \<Rightarrow> string list \<Rightarrow> base_attribute" where
  "base_attr i n pos vis var opts =
     \<lparr> attr_id = i, attr_name = n, attr_position = pos, attr_visible = vis,
       attr_variation = var, attr_options = opts \<rparr>"

definition baseProducts :: "base_product list" where
  "baseProducts =
     [\<lparr> bp_id = 101, bp_name = ''Vinyl Privacy Panel'', bp_price = ''89.99'',
        bp_categories = [base_cat 53 ''Vinyl Fence'' ''vinyl-fence'',
                         base_cat 289 ''Vinyl Panels'' ''vinyl-panels''],
        bp_attributes = [base_attr 1 ''Width'' 0 True False [''6 ft'', ''8 ft''],
                         base_attr 2 ''Height'' 1 True False [''4 ft'', ''6 ft'', ''8 ft''],
                         base_attr 3 ''Color'' 2 True False [''White'', ''Almond'']] \<rparr>,
      \<lparr> bp_id = 102, bp_name = ''Vinyl Picket Panel'', bp_price = ''79.99'',
        bp_categories = [base_cat 53 ''Vinyl Fence'' ''vinyl-fence'',
                         base_cat 289 ''Vinyl Panels'' ''vinyl-panels''],
        bp_attributes = [base_attr 1 ''Width'' 0 True False [''6 ft'', ''8 ft''],
                         base_attr 2 ''Height'' 1 True False [''3 ft'', ''4 ft''],
                         base_attr 3 ''Color'' 2 True False [''White'', ''Almond'']] \<rparr>,
      \<lparr> bp_id = 103, bp_name = ''Vinyl Post'', bp_price = ''45.99'',
        bp_categories = [base_cat 53 ''Vinyl Fence'' ''vinyl-fence'',
                         base_cat 291 ''Vinyl Posts'' ''vinyl-posts''],
        bp_attributes = [base_attr 2 ''Height'' 0 True False [''4 ft'', ''5 ft'', ''6 ft'', ''8 ft''],
                         base_attr 3 ''Color'' 1 True False [''White'', ''Almond'']] \<rparr>,
      \<lparr> bp_id = 104, bp_name = ''Vinyl Gate'', bp_price = ''219.99'',
        bp_categories = [base_cat 53 ''Vinyl Fence'' ''vinyl-fence'',
                         base_cat 290 ''Vinyl Gates'' ''vinyl-gates''],
        bp_attributes = [base_attr 1 ''Width'' 0 True True [''3 ft'', ''4 ft'', ''5 ft'', ''6 ft''],
                         base_attr 2 ''Height'' 1 True True [''4 ft'', ''6 ft''],
                         base_attr 3 ''Style'' 2 True True [''Privacy'', ''Picket'']] \<rparr>]"

text \<open>\<^verbatim>\<open>params.category\<close>, \<^verbatim>\<open>params.search\<close>: a missing property reads as
  \<^verbatim>\<open>undefined\<close>.\<close>

definition param :: "jobj \<Rightarrow> string \<Rightarrow> json" where
  "param params k = (case obj_get params k of None \<Rightarrow> JUndefined | Some v \<Rightarrow> v)"

text \<open>\<^verbatim>\<open>cat.id === parseInt(categoryFilter) || cat.slug === categoryFilter\<close>\<close>

definition category_matches :: "json \<Rightarrow> base_category \<Rightarrow> bool" where
  "category_matches categoryFilter cat =
     (num_eq (Fin (cat_id cat)) (parseInt (to_string categoryFilter))
      \<or> strict_eq (JStr (cat_slug cat)) categoryFilter)"

text \<open>\<^verbatim>\<open>product.name.toLowerCase().includes(searchLower)\<close>\<close>

definition name_matches :: "string \<Rightarrow> base_product \<Rightarrow> bool" where
  "name_matches searchLower product = str_includes (toLowerCase (bp_name product)) searchLower"

text \<open>\<^verbatim>\<open>filteredProducts.map(product => generateMockProduct(product.id))\<close>, the clock
  readings threaded from one call to the next.\<close>

fun mock_products_of :: "world \<Rightarrow> nat \<Rightarrow> base_product list \<Rightarrow> json list \<times> nat" where
  "mock_products_of w n [] = ([], n)"
| "mock_products_of w n (product # rest) =
     (case generateMockProduct w n (Fin (bp_id product)) of
        (x, n1) \<Rightarrow> (case mock_products_of w n1 rest of (xs, n2) \<Rightarrow> (x # xs, n2)))"

text \<open>\<^verbatim>\<open>generateMockProducts\<close>. A search filter that is truthy and not a string has no
  \<^verbatim>\<open>toLowerCase\<close> method: the call throws a \<^verbatim>\<open>TypeError\<close>.\<close>

definition generateMockProducts ::
    "world \<Rightarrow> nat \<Rightarrow> string \<Rightarrow> jobj \<Rightarrow> (js_error + json) \<times> nat" where
  "generateMockProducts w n endpoint params =
     (let categoryFilter = param params ''category'';
          searchFilter = param params ''search'';
          filteredProducts =
            (if truthy categoryFilter
             then filter (\<lambda>product. list_ex (category_matches categoryFilter) (bp_categories product))
                         baseProducts
             else baseProducts)
      in if truthy searchFilter
         then (case searchFilter of
                 JStr s \<Rightarrow>
                   (case mock_products_of w n
                           (filter (name_matches (toLowerCase s)) filteredProducts) of
                      (xs, n') \<Rightarrow> (Inr (JArr xs), n'))
               | _ \<Rightarrow> (Inl (TypeError ''searchFilter.toLowerCase is not a function''), n))
         else (case mock_products_of w n filteredProducts of
                 (xs, n') \<Rightarrow> (Inr (JArr xs), n')))"

text \<open>\<^verbatim>\<open>/products\/\d+/.test(s)\<close>: somewhere in \<open>s\<close> stands \<^verbatim>\<open>products/\<close> with a
  decimal digit right after it.\<close>

definition is_digit :: "char \<Rightarrow> bool" where
  "is_digit c = (c \<in> set ''0123456789'')"

fun test_products_id :: "string \<Rightarrow> bool" where
  "test_products_id [] = False"
| "test_products_id (c # cs) =
     ((startsWith (c # cs) ''products/'' \<and> list_ex is_digit (take 1 (drop 9 (c # cs))))
      \<or> test_products_id cs)"

text \<open>\<^verbatim>\<open>generateMockData\<close>: the generated value or the error thrown, and the number
  of clock readings taken.\<close>

definition generateMockData ::
    "world \<Rightarrow> nat \<Rightarrow> string \<Rightarrow> jobj \<Rightarrow> (js_error + json) \<times> nat" where
  "generateMockData w n endpoint params =
     (if str_includes endpoint ''products'' then
        (if str_includes endpoint ''categories'' then (Inr (generateMockCategories params), n)
         else if test_products_id endpoint then
           (case generateMockProduct w n (parseInt (split_pop endpoint)) of
              (x, n') \<Rightarrow> (Inr x, n'))
         else generateMockProducts w n endpoint params)
      else (Inr (JArr []), n))"

subsection \<open>The request cascade\<close>

text \<open>The \<^verbatim>\<open>fetchOptions\<close> object: a body only for a truthy \<^verbatim>\<open>data\<close> on
  \<^verbatim>\<open>POST\<close> and \<^verbatim>\<open>PUT\<close>.\<close>

definition make_fetchOptions :: "string \<Rightarrow> json \<Rightarrow> fetch_options" where
  "make_fetchOptions method data =
     \<lparr> fo_method = method,
       fo_headers = [(''Content-Type'', ''application/json''), (''Accept'', ''application/json'')],
       fo_timeout = REQUEST_TIMEOUT,
       fo_body = (if truthy data \<and> (method = ''POST'' \<or> method = ''PUT'') then Some data else None) \<rparr>"

text \<open>The body of the \<^verbatim>\<open>try\<close> block for the \<open>i\<close>-th candidate URL: \<open>Inr\<close> the parsed
  response, \<open>Inl\<close> whatever the \<^verbatim>\<open>catch\<close> clause receives. A rejected
  \<^verbatim>\<open>fetch\<close>, a status outside \<open>200..299\<close> and a rejected \<^verbatim>\<open>response.json()\<close>
  all land in that one clause.\<close>

definition try_fetch :: "world \<Rightarrow> nat \<Rightarrow> url \<Rightarrow> string \<Rightarrow> json \<Rightarrow> js_error + json" where
  "try_fetch w i u method data =
     (case fetch w i u (make_fetchOptions method data) of
        Rejected e \<Rightarrow> Inl e
      | Resolved response \<Rightarrow>
          if response_ok response then json_body response
          else Inl (Error (''API Error: '' @ num_to_string (Fin (status response))
                           @ '' '' @ statusText response)))"

text \<open>How a request ends: the promise's settlement (\<open>Inl\<close> rejected, \<open>Inr\<close> resolved),
  the calls of \<^verbatim>\<open>fetch\<close> it made, in order, and the number of clock readings taken.\<close>

record outcome =
  settled :: "js_error + json"
  fetched :: "(url \<times> fetch_options) list"
  clock_reads :: nat

text \<open>The \<^verbatim>\<open>for\<close> loop of \<^verbatim>\<open>woocommerceRequest\<close>, from index \<open>i\<close> on. The URL is
  built before the \<^verbatim>\<open>try\<close> block, so an error of \<^verbatim>\<open>buildWooCommerceUrl\<close> leaves the
  function at once. A loop that runs out of formats returns \<^verbatim>\<open>undefined\<close>.\<close>

function request_loop ::
    "world \<Rightarrow> config \<Rightarrow> bool \<Rightarrow> string \<Rightarrow> jobj \<Rightarrow> string \<Rightarrow> json \<Rightarrow> nat
       \<Rightarrow> (url \<times> fetch_options) list \<Rightarrow> nat \<Rightarrow> outcome" where
  "request_loop w cfg useMockData endpoint params method data n calls i =
     (if i < length (endpointFormats cfg) then
        (case buildWooCommerceUrl w cfg endpoint params i of
           Inl e \<Rightarrow> \<lparr> settled = Inl e, fetched = calls, clock_reads = n \<rparr>
         | Inr u \<Rightarrow>
             (case try_fetch w i u method data of
                Inr responseData \<Rightarrow>
                  \<lparr> settled = Inr responseData,
                    fetched = calls @ [(u, make_fetchOptions method data)],
                    clock_reads = n \<rparr>
              | Inl error \<Rightarrow>
                  if i < length (endpointFormats cfg) - 1 then
                    request_loop w cfg useMockData endpoint params method data n
                      (calls @ [(u, make_fetchOptions method data)]) (i + 1)
                  else if useMockData then
                    (case generateMockData w n endpoint params of
                       (r, n') \<Rightarrow>
                         \<lparr> settled = r,
                           fetched = calls @ [(u, make_fetchOptions method data)],
                           clock_reads = n' \<rparr>)
                  else
                    \<lparr> settled = Inl error,
                      fetched = calls @ [(u, make_fetchOptions method data)],
                      clock_reads = n \<rparr>))
      else \<lparr> settled = Inr JUndefined, fetched = calls, clock_reads = n \<rparr>)"
  by pat_completeness auto

termination
  by (relation "measure (\<lambda>(w, cfg, useMockData, endpoint, params, method, data, n, calls, i).
                   length (endpointFormats cfg) - i)") auto

declare request_loop.simps [simp del]

text \<open>\<^verbatim>\<open>const { useMockData = API_SETTINGS.USE_MOCK_DATA } = options\<close>: the default
  stands in for a missing or \<^verbatim>\<open>undefined\<close> property only.\<close>

definition useMockData_option :: "jobj \<Rightarrow> bool" where
  "useMockData_option options =
     (case obj_get options ''useMockData'' of
        None \<Rightarrow> USE_MOCK_DATA
      | Some v \<Rightarrow> if v = JUndefined then USE_MOCK_DATA else truthy v)"

text \<open>\<^verbatim>\<open>woocommerceRequest\<close>, started after \<open>n\<close> clock readings.\<close>

definition woocommerceRequest ::
    "world \<Rightarrow> config \<Rightarrow> nat \<Rightarrow> string \<Rightarrow> jobj \<Rightarrow> string \<Rightarrow> json \<Rightarrow> jobj \<Rightarrow> outcome" where
  "woocommerceRequest w cfg n endpoint params method data options =
     request_loop w cfg (useMockData_option options) endpoint params method data n [] 0"

text \<open>The client \<^verbatim>\<open>createWooCommerceClient\<close> returns, exported as \<^verbatim>\<open>api\<close>.\<close>

definition api_get :: "world \<Rightarrow> config \<Rightarrow> nat \<Rightarrow> string \<Rightarrow> jobj \<Rightarrow> outcome" where
  "api_get w cfg n endpoint params = woocommerceRequest w cfg n endpoint params ''GET'' JNull []"

definition api_post :: "world \<Rightarrow> config \<Rightarrow> nat \<Rightarrow> string \<Rightarrow> json \<Rightarrow> outcome" where
  "api_post w cfg n endpoint data = woocommerceRequest w cfg n endpoint [] ''POST'' data []"

definition api_put :: "world \<Rightarrow> config \<Rightarrow> nat \<Rightarrow> string \<Rightarrow> json \<Rightarrow> outcome" where
  "api_put w cfg n endpoint data = woocommerceRequest w cfg n endpoint [] ''PUT'' data []"

definition api_delete :: "world \<Rightarrow> config \<Rightarrow> nat \<Rightarrow> string \<Rightarrow> jobj \<Rightarrow> outcome" where
  "api_delete w cfg n endpoint params =
     woocommerceRequest w cfg n endpoint params ''DELETE'' JNull []"

subsection \<open>Vocabulary of the properties\<close>

text \<open>The \<open>i\<close>-th attempt of a request, taken by itself: the call of \<^verbatim>\<open>fetch\<close> it makes
  and what its \<^verbatim>\<open>try\<close> block yields; \<open>None\<close> when the candidate URL cannot be built,
  so that no attempt takes place.\<close>

definition attempt_call ::
    "world \<Rightarrow> config \<Rightarrow> string \<Rightarrow> jobj \<Rightarrow> string \<Rightarrow> json \<Rightarrow> nat
       \<Rightarrow> (url \<times> fetch_options) option" where
  "attempt_call w cfg endpoint params method data i =
     (case buildWooCommerceUrl w cfg endpoint params i of
        Inl e \<Rightarrow> None
      | Inr u \<Rightarrow> Some (u, make_fetchOptions method data))"

definition attempt ::
    "world \<Rightarrow> config \<Rightarrow> string \<Rightarrow> jobj \<Rightarrow> string \<Rightarrow> json \<Rightarrow> nat
       \<Rightarrow> (js_error + json) option" where
  "attempt w cfg endpoint params method data i =
     (case buildWooCommerceUrl w cfg endpoint params i of
        Inl e \<Rightarrow> None
      | Inr u \<Rightarrow> Some (try_fetch w i u method data))"

text \<open>An attempt that took place and failed.\<close>

definition failed :: "(js_error + json) option \<Rightarrow> bool" where
  "failed a = (case a of Some (Inl e) \<Rightarrow> True | _ \<Rightarrow> False)"

text \<open>A property list that stands for an object: no key twice.\<close>

definition is_object :: "jobj \<Rightarrow> bool" where
  "is_object ob = distinct (map fst ob)"

text \<open>Worlds, environments and configurations for the concrete runs below.\<close>

definition env_unset :: env where
  "env_unset = \<lparr> REACT_APP_WOOCOMMERCE_URL = None,
                 REACT_APP_WOOCOMMERCE_CONSUMER_KEY = None,
                 REACT_APP_WOOCOMMERCE_CONSUMER_SECRET = None \<rparr>"

definition env_shop :: env where
  "env_shop = \<lparr> REACT_APP_WOOCOMMERCE_URL = Some ''https://www.shop.test'',
                REACT_APP_WOOCOMMERCE_CONSUMER_KEY = Some ''ck_1'',
                REACT_APP_WOOCOMMERCE_CONSUMER_SECRET = Some ''cs_1'' \<rparr>"

text \<open>A URL parser for the runs: it accepts what starts with \<^verbatim>\<open>https://\<close> and takes
  the host name up to the next slash.\<close>

definition https_host :: "string \<Rightarrow> string option" where
  "https_host s =
     (if startsWith s ''https://'' then Some (takeWhile (\<lambda>c. c \<noteq> CHR ''/'') (drop 8 s))
      else None)"

definition clock_a :: "nat \<Rightarrow> string" where
  "clock_a k = ''2024-01-01T00:00:00.000Z''"


definition net_down :: "nat \<Rightarrow> url \<Rightarrow> fetch_options \<Rightarrow> fetch_result" where
  "net_down i u opts = Rejected (TypeError ''Failed to fetch'')"

definition net_garbled :: "nat \<Rightarrow> url \<Rightarrow> fetch_options \<Rightarrow> fetch_result" where
  "net_garbled i u opts =
     Resolved \<lparr> status = 200, statusText = ''OK'',
                json_body = Inl (SyntaxError ''Unexpected token < in JSON'') \<rparr>"

definition net_second :: "nat \<Rightarrow> url \<Rightarrow> fetch_options \<Rightarrow> fetch_result" where
  "net_second i u opts =
     (if i = 1 then Resolved \<lparr> status = 200, statusText = ''OK'', json_body = Inr (JArr []) \<rparr>
      else Resolved \<lparr> status = 404, statusText = ''Not Found'', json_body = Inr JNull \<rparr>)"

definition world_down :: world where
  "world_down = \<lparr> url_hostname = https_host, now_iso = clock_a, fetch = net_down \<rparr>"


definition world_garbled :: world where
  "world_garbled = \<lparr> url_hostname = https_host, now_iso = clock_a, fetch = net_garbled \<rparr>"

definition world_second :: world where
  "world_second = \<lparr> url_hostname = https_host, now_iso = clock_a, fetch = net_second \<rparr>"

definition config_unset :: config where
  "config_unset = API_CONFIG https_host env_unset"

definition config_shop :: config where
  "config_shop = API_CONFIG https_host env_shop"

text \<open>The elements of a generated array (none for an error or another value), and the
  three properties of a product the filters are about.\<close>

definition array_items :: "js_error + json \<Rightarrow> json list" where
  "array_items r = (case r of Inr (JArr xs) \<Rightarrow> xs | _ \<Rightarrow> [])"

definition id_name_categories :: "json \<Rightarrow> json \<times> json \<times> json" where
  "id_name_categories p = (get_prop p ''id'', get_prop p ''name'', get_prop p ''categories'')"

text \<open>The \<^verbatim>\<open>search\<close> parameter is one \<^verbatim>\<open>generateMockProducts\<close> can filter by: a
  string, or a value that counts as no filter.\<close>

definition search_is_text :: "jobj \<Rightarrow> bool" where
  "search_is_text params =
     (case param params ''search'' of JStr s \<Rightarrow> True | v \<Rightarrow> \<not> truthy v)"

text \<open>The query parameters bind \<open>k\<close> to \<^verbatim>\<open>undefined\<close> or to \<^verbatim>\<open>null\<close>.\<close>

definition voided :: "jobj \<Rightarrow> string \<Rightarrow> bool" where
  "voided params k = (obj_get params k = Some JUndefined \<or> obj_get params k = Some JNull)"

text \<open>The paths \<^verbatim>\<open>generateMockData\<close> hands on to \<^verbatim>\<open>generateMockProducts\<close>: they name
  \<^verbatim>\<open>products\<close>, but neither the categories nor a single product.\<close>

definition collection_path :: "string \<Rightarrow> bool" where
  "collection_path endpoint =
     (str_includes endpoint ''products'' \<and> str_includes endpoint ''categories'' = False
      \<and> test_products_id endpoint = False)"

section \<open>Properties\<close>

subsection \<open>Strings and objects\<close>

text \<open>The two string tests mean what their names say.\<close>

lemma startsWith_iff: "startsWith s p \<longleftrightarrow> (\<exists>r. s = p @ r)"
  by (induction s p rule: startsWith.induct) auto

lemma str_includes_iff: "str_includes s p \<longleftrightarrow> (\<exists>a b. s = a @ p @ b)"
proof (induction s)
  case Nil
  then show ?case by auto
next
  case (Cons c cs)
  show ?case
  proof
    assume "str_includes (c # cs) p"
    then consider "startsWith (c # cs) p" | "str_includes cs p" by auto
    then show "\<exists>a b. c # cs = a @ p @ b"
    proof cases
      case 1
      then obtain r where "c # cs = p @ r" by (auto simp: startsWith_iff)
      then have "c # cs = [] @ p @ r" by simp
      then show ?thesis by blast
    next
      case 2
      then obtain a b where "cs = a @ p @ b" using Cons.IH by auto
      then have "c # cs = (c # a) @ p @ b" by simp
      then show ?thesis by blast
    qed
  next
    assume "\<exists>a b. c # cs = a @ p @ b"
    then obtain a b where ab: "c # cs = a @ p @ b" by auto
    show "str_includes (c # cs) p"
    proof (cases a)
      case Nil
      with ab have "startsWith (c # cs) p" by (auto simp: startsWith_iff)
      then show ?thesis by simp
    next
      case (Cons x a')
      with ab have "cs = a' @ p @ b" by simp
      then have "str_includes cs p" using Cons.IH by blast
      then show ?thesis by simp
    qed
  qed
qed

text \<open>Defining properties: the value read back, the keys, and that no key is doubled.\<close>

lemma map_of_insert_index:
  "k \<notin> fst ` set ob \<Longrightarrow> map_of (insert_index k v ob) = (map_of ob)(k \<mapsto> v)"
  by (induction ob) (auto simp: fun_eq_iff)

lemma map_of_obj_set: "map_of (obj_set k v ob) = (map_of ob)(k \<mapsto> v)"
  by (auto simp: obj_set_def map_of_insert_index update_conv')

lemma keys_obj_set: "fst ` set (obj_set k v ob) = insert k (fst ` set ob)"
proof -
  have "dom (map_of (obj_set k v ob)) = insert k (dom (map_of ob))"
    by (simp add: map_of_obj_set)
  then show ?thesis by (simp only: dom_map_of_conv_image_fst)
qed

lemma keys_insert_index: "fst ` set (insert_index k v ob) = insert k (fst ` set ob)"
  by (induction ob) auto

lemma distinct_insert_index:
  "k \<notin> fst ` set ob \<Longrightarrow> distinct (map fst ob) \<Longrightarrow> distinct (map fst (insert_index k v ob))"
  by (induction ob) (auto simp: keys_insert_index)

lemma distinct_obj_set: "distinct (map fst ob) \<Longrightarrow> distinct (map fst (obj_set k v ob))"
  by (auto simp: obj_set_def distinct_insert_index distinct_update)

lemma map_of_spread: "map_of (spread base ps) = map_of base ++ map_of (rev ps)"
  unfolding spread_def
  by (induction ps arbitrary: base) (auto simp: map_of_obj_set fun_eq_iff map_add_def split: option.splits)

lemma keys_spread: "fst ` set (spread base ps) = fst ` set base \<union> fst ` set ps"
proof -
  have "dom (map_of (spread base ps)) = dom (map_of base) \<union> dom (map_of (rev ps))"
    by (simp add: map_of_spread Un_commute)
  then show ?thesis by (simp only: dom_map_of_conv_image_fst set_rev)
qed

lemma distinct_spread: "distinct (map fst base) \<Longrightarrow> distinct (map fst (spread base ps))"
  unfolding spread_def
  by (induction ps arbitrary: base) (auto simp: distinct_obj_set)

lemma map_of_rev_distinct: "distinct (map fst ps) \<Longrightarrow> map_of (rev ps) = map_of ps"
  by (rule map_of_inject_set[THEN iffD2]) (auto simp: rev_map[symmetric])

subsection \<open>The URL builder\<close>

text \<open>Which entries the loop over the keys appends.\<close>

lemma in_append_entry:
  "(k', s) \<in> set (append_entry ap k) \<longleftrightarrow>
     k' = k \<and> (\<exists>v. map_of ap k = Some v \<and> v \<noteq> JUndefined \<and> v \<noteq> JNull \<and> s = to_string v)"
proof (cases "map_of ap k")
  case None
  then show ?thesis by (simp add: append_entry_def obj_get_def)
next
  case (Some v)
  then show ?thesis by (cases "v = JUndefined \<or> v = JNull") (auto simp: append_entry_def obj_get_def)
qed

lemma in_query_entries:
  "(k, s) \<in> set (query_entries ap) \<longleftrightarrow>
     (\<exists>v. map_of ap k = Some v \<and> v \<noteq> JUndefined \<and> v \<noteq> JNull \<and> s = to_string v)"
proof -
  have "(k, s) \<in> set (query_entries ap) \<longleftrightarrow> (\<exists>k' \<in> fst ` set ap. (k, s) \<in> set (append_entry ap k'))"
    by (simp add: query_entries_def)
  also have "\<dots> \<longleftrightarrow> (k \<in> fst ` set ap \<and> (\<exists>v. map_of ap k = Some v \<and> v \<noteq> JUndefined \<and> v \<noteq> JNull \<and> s = to_string v))"
    by (simp only: in_append_entry) blast
  also have "\<dots> \<longleftrightarrow> (\<exists>v. map_of ap k = Some v \<and> v \<noteq> JUndefined \<and> v \<noteq> JNull \<and> s = to_string v)"
    by (metis domI dom_map_of_conv_image_fst)
  finally show ?thesis .
qed

text \<open>The object the entries are read from: a parameter hides the credential of the
  same name.\<close>

lemma map_of_allParams:
  "is_object params \<Longrightarrow>
   map_of (spread [(''consumer_key'', c1), (''consumer_secret'', c2)] params) k =
     (case map_of params k of
        Some v \<Rightarrow> Some v
      | None \<Rightarrow> if k = ''consumer_key'' then Some c1
                else if k = ''consumer_secret'' then Some c2 else None)"
  by (simp add: map_of_spread map_of_rev_distinct is_object_def map_add_def split: option.splits)

text \<open>The configuration read from the environment has three formats, none empty.\<close>

lemma primaryDomain_nonempty: "primaryDomain e \<noteq> []"
  by (auto simp: primaryDomain_def or_default_def split: option.splits)
lemma select_format_API_CONFIG:
  "select_format (API_CONFIG h e) i = Some (endpointFormats (API_CONFIG h e) ! (if i < 3 then i else 0))"
proof -
  have ne: "primaryDomain e @ s \<noteq> []" for s by (simp add: primaryDomain_nonempty)
  have len: "length (endpointFormats (API_CONFIG h e)) = 3" by (simp add: API_CONFIG_def)
  have all: "f \<in> set (endpointFormats (API_CONFIG h e)) \<Longrightarrow> f \<noteq> []" for f
    using ne by (auto simp: API_CONFIG_def)
  show ?thesis
  proof (cases "i < 3")
    case True
    then have "endpointFormats (API_CONFIG h e) ! i \<in> set (endpointFormats (API_CONFIG h e))"
      using len by simp
    then have "endpointFormats (API_CONFIG h e) ! i \<noteq> []" by (rule all)
    then show ?thesis using True len by (simp add: select_format_def array_at_def)
  next
    case False
    then show ?thesis using len by (simp add: select_format_def array_at_def)
  qed
qed

subsection \<open>The loop\<close>

text \<open>One iteration, by what the attempt yields.\<close>

lemma loop_success:
  assumes "i < length (endpointFormats cfg)"
    and "buildWooCommerceUrl w cfg endpoint params i = Inr u"
    and "try_fetch w i u method data = Inr body"
  shows "request_loop w cfg um endpoint params method data n calls i =
           \<lparr> settled = Inr body, fetched = calls @ [(u, make_fetchOptions method data)],
             clock_reads = n \<rparr>"
  using assms by (subst request_loop.simps) simp

lemma loop_fail_next:
  assumes "Suc i < length (endpointFormats cfg)"
    and "buildWooCommerceUrl w cfg endpoint params i = Inr u"
    and "try_fetch w i u method data = Inl err"
  shows "request_loop w cfg um endpoint params method data n calls i =
           request_loop w cfg um endpoint params method data n
             (calls @ [(u, make_fetchOptions method data)]) (Suc i)"
  using assms by (subst request_loop.simps) simp

lemma loop_fail_last:
  assumes "Suc i = length (endpointFormats cfg)"
    and "buildWooCommerceUrl w cfg endpoint params i = Inr u"
    and "try_fetch w i u method data = Inl err"
  shows "request_loop w cfg um endpoint params method data n calls i =
           (if um then \<lparr> settled = fst (generateMockData w n endpoint params),
                          fetched = calls @ [(u, make_fetchOptions method data)],
                          clock_reads = snd (generateMockData w n endpoint params) \<rparr>
            else \<lparr> settled = Inl err, fetched = calls @ [(u, make_fetchOptions method data)],
                   clock_reads = n \<rparr>)"
proof -
  have "i < length (endpointFormats cfg)" "\<not> i < length (endpointFormats cfg) - 1"
    using assms(1) by arith+
  then show ?thesis
    using assms(2,3) by (subst request_loop.simps) (simp add: case_prod_beta)
qed

lemma loop_no_url:
  assumes "i < length (endpointFormats cfg)"
    and "buildWooCommerceUrl w cfg endpoint params i = Inl err"
  shows "request_loop w cfg um endpoint params method data n calls i =
           \<lparr> settled = Inl err, fetched = calls, clock_reads = n \<rparr>"
  using assms by (subst request_loop.simps) simp

text \<open>A failed attempt, taken apart.\<close>

lemma failedE:
  assumes "failed (attempt w cfg endpoint params method data i)"
  obtains u err where "buildWooCommerceUrl w cfg endpoint params i = Inr u"
    and "try_fetch w i u method data = Inl err"
    and "attempt_call w cfg endpoint params method data i = Some (u, make_fetchOptions method data)"
  using assms by (auto simp: failed_def attempt_def attempt_call_def split: sum.splits option.splits)

text \<open>A run of failed attempts moves the loop on and records their calls.\<close>

lemma loop_skip:
  assumes "\<forall>j. i \<le> j \<and> j < i + k \<longrightarrow> failed (attempt w cfg endpoint params method data j)"
    and "i + k < length (endpointFormats cfg)"
  shows "\<exists>cs. map Some cs = map (attempt_call w cfg endpoint params method data) [i..<i + k] \<and>
           request_loop w cfg um endpoint params method data n calls i =
           request_loop w cfg um endpoint params method data n (calls @ cs) (i + k)"
  using assms
proof (induction k arbitrary: i calls)
  case 0
  then show ?case by simp
next
  case (Suc k)
  have "failed (attempt w cfg endpoint params method data i)" using Suc.prems(1) by simp
  then obtain u err where u: "buildWooCommerceUrl w cfg endpoint params i = Inr u"
    and e: "try_fetch w i u method data = Inl err"
    and c: "attempt_call w cfg endpoint params method data i = Some (u, make_fetchOptions method data)"
    by (rule failedE)
  have step: "request_loop w cfg um endpoint params method data n calls i =
           request_loop w cfg um endpoint params method data n
             (calls @ [(u, make_fetchOptions method data)]) (Suc i)"
    using Suc.prems(2) u e by (intro loop_fail_next) auto
  have "\<forall>j. Suc i \<le> j \<and> j < Suc i + k \<longrightarrow> failed (attempt w cfg endpoint params method data j)"
    using Suc.prems(1) by simp
  moreover have "Suc i + k < length (endpointFormats cfg)" using Suc.prems(2) by simp
  ultimately obtain cs where
    cs: "map Some cs = map (attempt_call w cfg endpoint params method data) [Suc i..<Suc i + k]"
    and r: "request_loop w cfg um endpoint params method data n
              (calls @ [(u, make_fetchOptions method data)]) (Suc i) =
            request_loop w cfg um endpoint params method data n
              ((calls @ [(u, make_fetchOptions method data)]) @ cs) (Suc i + k)"
    using Suc.IH[of "Suc i" "calls @ [(u, make_fetchOptions method data)]"] by blast
  have "[i..<i + Suc k] = i # [Suc i..<Suc i + k]" by (simp add: upt_conv_Cons)
  then have "map Some ((u, make_fetchOptions method data) # cs) =
      map (attempt_call w cfg endpoint params method data) [i..<i + Suc k]"
    using cs c by simp
  moreover have "request_loop w cfg um endpoint params method data n calls i =
      request_loop w cfg um endpoint params method data n
        (calls @ (u, make_fetchOptions method data) # cs) (i + Suc k)"
    using step r by simp
  ultimately show ?case by blast
qed

text \<open>What a successful attempt is, in terms of the response.\<close>

lemma attempt_success_iff:
  "attempt w cfg endpoint params method data i = Some (Inr body) \<longleftrightarrow>
     (\<exists>u. buildWooCommerceUrl w cfg endpoint params i = Inr u \<and> try_fetch w i u method data = Inr body)"
  by (auto simp: attempt_def split: sum.splits)

lemma try_fetch_success_iff:
  "try_fetch w i u method data = Inr body \<longleftrightarrow>
     (\<exists>resp. fetch w i u (make_fetchOptions method data) = Resolved resp \<and>
             response_ok resp \<and> json_body resp = Inr body)"
  by (auto simp: try_fetch_def split: fetch_result.splits)

text \<open>The loop only ever adds calls to those already made, and an iteration whose URL
  builds adds its own.\<close>

lemma loop_keeps_calls:
  "\<exists>rest. fetched (request_loop w cfg um endpoint params meth data n calls i) = calls @ rest"
proof (induction w cfg um endpoint params meth data n calls i rule: request_loop.induct)
  case (1 w cfg um endpoint params meth data n calls i)
  show ?case
  proof (cases "i < length (endpointFormats cfg)")
    case False
    then show ?thesis by (subst request_loop.simps) simp
  next
    case lt: True
    show ?thesis
    proof (cases "buildWooCommerceUrl w cfg endpoint params i")
      case (Inl e)
      then show ?thesis using lt by (simp add: loop_no_url)
    next
      case (Inr u)
      show ?thesis
      proof (cases "try_fetch w i u meth data")
        case (Inr body)
        then show ?thesis using lt \<open>buildWooCommerceUrl w cfg endpoint params i = Inr u\<close>
          by (simp add: loop_success)
      next
        case (Inl err)
        show ?thesis
        proof (cases "i < length (endpointFormats cfg) - 1")
          case True
          then have "\<exists>rest. fetched (request_loop w cfg um endpoint params meth data n
                       (calls @ [(u, make_fetchOptions meth data)]) (i + 1)) =
                     (calls @ [(u, make_fetchOptions meth data)]) @ rest"
            using "1.IH" lt \<open>buildWooCommerceUrl w cfg endpoint params i = Inr u\<close> Inl by blast
          moreover have "request_loop w cfg um endpoint params meth data n calls i =
              request_loop w cfg um endpoint params meth data n
                (calls @ [(u, make_fetchOptions meth data)]) (Suc i)"
            using True \<open>buildWooCommerceUrl w cfg endpoint params i = Inr u\<close> Inl
            by (intro loop_fail_next) auto
          ultimately show ?thesis by auto
        next
          case False
          then have "Suc i = length (endpointFormats cfg)" using lt by arith
          then show ?thesis
            using \<open>buildWooCommerceUrl w cfg endpoint params i = Inr u\<close> Inl
            by (simp add: loop_fail_last)
        qed
      qed
    qed
  qed
qed

lemma loop_makes_call:
  assumes "i < length (endpointFormats cfg)"
    and "buildWooCommerceUrl w cfg endpoint params i = Inr u"
  shows "\<exists>rest. fetched (request_loop w cfg um endpoint params method data n calls i) =
           calls @ (u, make_fetchOptions method data) # rest"
proof (cases "try_fetch w i u method data")
  case (Inr body)
  then show ?thesis using assms by (simp add: loop_success)
next
  case (Inl err)
  show ?thesis
  proof (cases "Suc i < length (endpointFormats cfg)")
    case True
    then have "request_loop w cfg um endpoint params method data n calls i =
        request_loop w cfg um endpoint params method data n
          (calls @ [(u, make_fetchOptions method data)]) (Suc i)"
      using assms(2) Inl by (rule loop_fail_next)
    then show ?thesis
      using loop_keeps_calls[of w cfg um endpoint params "method" data n
          "calls @ [(u, make_fetchOptions method data)]" "Suc i"] by auto
  next
    case False
    then have "Suc i = length (endpointFormats cfg)" using assms(1) by arith
    then show ?thesis using assms(2) Inl by (simp add: loop_fail_last)
  qed
qed

text \<open>Every attempt fails: the last iteration decides.\<close>

lemma all_fail:
  assumes "length (endpointFormats cfg) = Suc m"
    and "\<forall>i\<le>m. failed (attempt w cfg endpoint params method data i)"
  shows "settled (request_loop w cfg um endpoint params method data n [] 0) =
           (if um then fst (generateMockData w n endpoint params)
            else the (attempt w cfg endpoint params method data m)) \<and>
         map Some (fetched (request_loop w cfg um endpoint params method data n [] 0)) =
           map (attempt_call w cfg endpoint params method data) [0..<Suc m]"
proof -
  have "\<forall>j. 0 \<le> j \<and> j < 0 + m \<longrightarrow> failed (attempt w cfg endpoint params method data j)"
    using assms(2) by simp
  moreover have "0 + m < length (endpointFormats cfg)" using assms(1) by simp
  ultimately obtain cs where
    cs: "map Some cs = map (attempt_call w cfg endpoint params method data) [0..<0 + m]"
    and r: "request_loop w cfg um endpoint params method data n [] 0 =
            request_loop w cfg um endpoint params method data n ([] @ cs) (0 + m)"
    using loop_skip[of 0 m w cfg endpoint params "method" data um n "[]"] by blast
  have "failed (attempt w cfg endpoint params method data m)" using assms(2) by simp
  then obtain u err where u: "buildWooCommerceUrl w cfg endpoint params m = Inr u"
    and e: "try_fetch w m u method data = Inl err"
    and c: "attempt_call w cfg endpoint params method data m = Some (u, make_fetchOptions method data)"
    by (rule failedE)
  have last: "request_loop w cfg um endpoint params method data n cs m =
           (if um then \<lparr> settled = fst (generateMockData w n endpoint params),
                          fetched = cs @ [(u, make_fetchOptions method data)],
                          clock_reads = snd (generateMockData w n endpoint params) \<rparr>
            else \<lparr> settled = Inl err, fetched = cs @ [(u, make_fetchOptions method data)],
                   clock_reads = n \<rparr>)"
    using assms(1) u e by (intro loop_fail_last) auto
  have a: "attempt w cfg endpoint params method data m = Some (Inl err)"
    using u e by (simp add: attempt_def)
  have "map Some (cs @ [(u, make_fetchOptions method data)]) =
          map (attempt_call w cfg endpoint params method data) [0..<Suc m]"
    using cs c by simp
  then show ?thesis using r last a by simp
qed

text \<open>A credential the parameters leave alone, or bind to a proper value, has an entry.\<close>

lemma credential_entry:
  assumes "is_object params"
    and "k = ''consumer_key'' \<or> k = ''consumer_secret''"
    and "\<not> voided params k"
  shows "\<exists>v. map_of (spread [(''consumer_key'', JStr c1), (''consumer_secret'', JStr c2)] params) k = Some v
           \<and> v \<noteq> JUndefined \<and> v \<noteq> JNull \<and>
           (obj_get params k = None \<longrightarrow>
              v = JStr (if k = ''consumer_key'' then c1 else c2))"
proof (cases "map_of params k")
  case None
  then show ?thesis using assms(1,2) by (auto simp: map_of_allParams obj_get_def)
next
  case (Some v)
  then have "v \<noteq> JNull" "v \<noteq> JUndefined" using assms(3) by (auto simp: voided_def obj_get_def)
  then show ?thesis using Some assms(1) by (simp add: map_of_allParams obj_get_def)
qed

text \<open>The loop appends at most one entry for a key.\<close>

lemma keys_query_entries:
  "map fst (concat (map (append_entry ap) ks)) = filter (\<lambda>k. append_entry ap k \<noteq> []) ks"
  by (induction ks) (auto simp: append_entry_def split: option.splits)

lemma distinct_query_entries:
  "distinct (map fst ap) \<Longrightarrow> distinct (map fst (query_entries ap))"
  unfolding query_entries_def keys_query_entries by (rule distinct_filter)

text \<open>The builder and the loop read three fields of the configuration.\<close>

lemma build_reads:
  assumes "endpointFormats cfg' = endpointFormats cfg"
    and "consumerKey cfg' = consumerKey cfg"
    and "consumerSecret cfg' = consumerSecret cfg"
  shows "buildWooCommerceUrl w cfg' endpoint params i = buildWooCommerceUrl w cfg endpoint params i"
proof -
  have "select_format cfg' i = select_format cfg i"
    unfolding select_format_def assms(1) ..
  then show ?thesis
    unfolding buildWooCommerceUrl_def assms(2,3) by simp
qed

lemma loop_reads:
  assumes "endpointFormats cfg' = endpointFormats cfg"
    and "consumerKey cfg' = consumerKey cfg"
    and "consumerSecret cfg' = consumerSecret cfg"
  shows "request_loop w cfg' um endpoint params meth data n calls i =
         request_loop w cfg um endpoint params meth data n calls i"
  using assms
proof (induction w cfg um endpoint params meth data n calls i rule: request_loop.induct)
  case (1 w cfg um endpoint params meth data n calls i)
  note b = build_reads [OF "1.prems", of w endpoint params i]
  show ?case
  proof (cases "i < length (endpointFormats cfg)")
    case False
    then show ?thesis
      using "1.prems"(1)
      by (subst request_loop.simps, subst (2) request_loop.simps) simp
  next
    case lt: True
    show ?thesis
    proof (cases "buildWooCommerceUrl w cfg endpoint params i")
      case (Inl e)
      then show ?thesis using lt b "1.prems"(1) by (simp add: loop_no_url)
    next
      case (Inr u)
      show ?thesis
      proof (cases "try_fetch w i u meth data")
        case (Inr body)
        then show ?thesis
          using lt b "1.prems"(1) \<open>buildWooCommerceUrl w cfg endpoint params i = Inr u\<close>
          by (simp add: loop_success)
      next
        case (Inl err)
        show ?thesis
        proof (cases "i < length (endpointFormats cfg) - 1")
          case True
          then have s: "Suc i < length (endpointFormats cfg)" by arith
          have "request_loop w cfg' um endpoint params meth data n
                  (calls @ [(u, make_fetchOptions meth data)]) (i + 1) =
                request_loop w cfg um endpoint params meth data n
                  (calls @ [(u, make_fetchOptions meth data)]) (i + 1)"
            using "1.IH" [OF lt \<open>buildWooCommerceUrl w cfg endpoint params i = Inr u\<close> Inl True]
              "1.prems" by blast
          moreover have "request_loop w cfg um endpoint params meth data n calls i =
              request_loop w cfg um endpoint params meth data n
                (calls @ [(u, make_fetchOptions meth data)]) (Suc i)"
            using s \<open>buildWooCommerceUrl w cfg endpoint params i = Inr u\<close> Inl
            by (rule loop_fail_next)
          moreover have "request_loop w cfg' um endpoint params meth data n calls i =
              request_loop w cfg' um endpoint params meth data n
                (calls @ [(u, make_fetchOptions meth data)]) (Suc i)"
            using s b \<open>buildWooCommerceUrl w cfg endpoint params i = Inr u\<close> Inl "1.prems"(1)
            by (intro loop_fail_next) auto
          ultimately show ?thesis by simp
        next
          case False
          then have "Suc i = length (endpointFormats cfg)" using lt by arith
          then show ?thesis
            using b \<open>buildWooCommerceUrl w cfg endpoint params i = Inr u\<close> Inl "1.prems"(1)
            by (simp add: loop_fail_last)
        qed
      qed
    qed
  qed
qed

subsection \<open>Mock data and the clock\<close>









subsection \<open>The generator's one error, and the cascade when every attempt fails\<close>

text \<open>\<^verbatim>\<open>generateMockData\<close> throws on a product collection whose \<^verbatim>\<open>search\<close> parameter
  is truthy and not a string, and nowhere else; the error is the \<^verbatim>\<open>TypeError\<close> of
  \<^verbatim>\<open>searchFilter.toLowerCase()\<close>.\<close>

lemma mock_products_throw_iff:
  "fst (generateMockProducts w n endpoint params) = Inl err \<longleftrightarrow>
     \<not> search_is_text params \<and> err = TypeError ''searchFilter.toLowerCase is not a function''"
  unfolding generateMockProducts_def search_is_text_def Let_def
  by (cases "param params ''search''") (auto simp: case_prod_beta)

lemma generator_throws_iff:
  "fst (generateMockData w n endpoint params) = Inl err \<longleftrightarrow>
     collection_path endpoint \<and> \<not> search_is_text params \<and>
     err = TypeError ''searchFilter.toLowerCase is not a function''"
  unfolding generateMockData_def collection_path_def
  by (simp add: case_prod_beta mock_products_throw_iff)

lemma generator_returns:
  assumes "collection_path endpoint \<longrightarrow> search_is_text params"
  shows "\<exists>v. fst (generateMockData w n endpoint params) = Inr v"
proof (cases "fst (generateMockData w n endpoint params)")
  case (Inl err)
  then show ?thesis using assms by (simp add: generator_throws_iff)
next
  case (Inr v)
  then show ?thesis by blast
qed

text \<open>Every one of the three formats of the configuration fails, each candidate URL
  having been built: with the fallback enabled the request settles as the generator
  does, so it resolves to the generated value wherever the generator returns one; with
  the fallback disabled it rejects with the error of the last attempt. All three calls
  have been made by then. Without options the fallback is enabled, and for
  \<^verbatim>\<open>products/categories\<close> the generated value is the list of sixteen categories.\<close>

lemma exhausted_cascade:
  assumes "\<forall>i<3. failed (attempt w (API_CONFIG (url_hostname w) e) endpoint params meth data i)"
  shows "(useMockData_option options \<longrightarrow>
            settled (woocommerceRequest w (API_CONFIG (url_hostname w) e) n endpoint params
                       meth data options) =
              fst (generateMockData w n endpoint params)) \<and>
         (\<not> useMockData_option options \<longrightarrow>
            Some (settled (woocommerceRequest w (API_CONFIG (url_hostname w) e) n endpoint params
                             meth data options)) =
              attempt w (API_CONFIG (url_hostname w) e) endpoint params meth data 2) \<and>
         length (fetched (woocommerceRequest w (API_CONFIG (url_hostname w) e) n endpoint params
                            meth data options)) = 3"
proof -
  let ?cfg = "API_CONFIG (url_hostname w) e"
  let ?r = "woocommerceRequest w ?cfg n endpoint params meth data options"
  have len: "length (endpointFormats ?cfg) = Suc 2" by (simp add: API_CONFIG_def)
  have fails: "\<forall>i\<le>2. failed (attempt w ?cfg endpoint params meth data i)"
    using assms by simp
  note af = all_fail [OF len fails, of "useMockData_option options" n]
  have "failed (attempt w ?cfg endpoint params meth data 2)" using fails by simp
  then obtain err where err: "attempt w ?cfg endpoint params meth data 2 = Some (Inl err)"
    by (auto simp: failed_def split: option.splits sum.splits)
  have s: "settled ?r = (if useMockData_option options then fst (generateMockData w n endpoint params)
                         else Inl err)"
    using af err by (simp add: woocommerceRequest_def)
  have "length (map Some (fetched ?r)) = 3"
    using af by (simp add: woocommerceRequest_def)
  then have l: "length (fetched ?r) = 3" by simp
  show ?thesis using s l err by simp
qed

lemma exhausted_cascade_resolves:
  assumes "\<forall>i<3. failed (attempt w (API_CONFIG (url_hostname w) e) endpoint params meth data i)"
    and "collection_path endpoint \<longrightarrow> search_is_text params"
    and "useMockData_option options"
  shows "\<exists>v. fst (generateMockData w n endpoint params) = Inr v \<and>
             settled (woocommerceRequest w (API_CONFIG (url_hostname w) e) n endpoint params
                        meth data options) = Inr v"
proof -
  obtain v where v: "fst (generateMockData w n endpoint params) = Inr v"
    using generator_returns [OF assms(2)] by blast
  then show ?thesis
    using exhausted_cascade [OF assms(1), of options n] assms(3) by simp
qed

lemma fallback_default: "useMockData_option []"
  by (simp add: useMockData_option_def obj_get_def USE_MOCK_DATA_def)

lemma categories_generated:
  "fst (generateMockData w n ''products/categories'' params) = Inr (generateMockCategories params) \<and>
   (\<exists>cs. generateMockCategories params = JArr cs \<and> length cs = 16)"
proof -
  have a: "str_includes ''products/categories'' ''products''" by simp
  have b: "str_includes ''products/categories'' ''categories''" by simp
  have "fst (generateMockData w n ''products/categories'' params) =
          Inr (generateMockCategories params)"
    unfolding generateMockData_def using a b by simp
  then show ?thesis by (simp add: generateMockCategories_def)
qed

subsection \<open>The path tests of the generator\<close>

text \<open>What \<open>split_pop\<close> and \<open>test_products_id\<close> compute, said with list operations.\<close>

lemma split_pop_no_slash: "CHR ''/'' \<notin> set s \<Longrightarrow> split_pop s = s"
  by (induction s) auto

lemma split_pop_last_segment: "CHR ''/'' \<notin> set b \<Longrightarrow> split_pop (a @ CHR ''/'' # b) = b"
  by (induction a) auto

lemma test_products_id_iff:
  "test_products_id s \<longleftrightarrow> (\<exists>a d b. s = a @ ''products/'' @ d # b \<and> is_digit d)"
proof (induction s)
  case Nil
  then show ?case by simp
next
  case (Cons c cs)
  have here: "(startsWith (c # cs) ''products/'' \<and> list_ex is_digit (take 1 (drop 9 (c # cs)))) \<longleftrightarrow>
              (\<exists>d b. c # cs = ''products/'' @ d # b \<and> is_digit d)"
  proof
    assume l: "startsWith (c # cs) ''products/'' \<and> list_ex is_digit (take 1 (drop 9 (c # cs)))"
    then obtain r where r: "c # cs = ''products/'' @ r" by (auto simp: startsWith_iff)
    then have "drop 9 (c # cs) = r" by simp
    then have "list_ex is_digit (take 1 r)" using l by simp
    then obtain d b where "r = d # b" "is_digit d" by (cases r) auto
    then show "\<exists>d b. c # cs = ''products/'' @ d # b \<and> is_digit d" using r by blast
  next
    assume "\<exists>d b. c # cs = ''products/'' @ d # b \<and> is_digit d"
    then obtain d b where db: "c # cs = ''products/'' @ d # b" "is_digit d" by blast
    then have "startsWith (c # cs) ''products/''" by (auto simp: startsWith_iff)
    moreover have "drop 9 (c # cs) = d # b" using db(1) by simp
    ultimately show "startsWith (c # cs) ''products/'' \<and> list_ex is_digit (take 1 (drop 9 (c # cs)))"
      using db(2) by simp
  qed
  show ?case
  proof
    assume "test_products_id (c # cs)"
    then consider "\<exists>d b. c # cs = ''products/'' @ d # b \<and> is_digit d" | "test_products_id cs"
      using here by auto
    then show "\<exists>a d b. c # cs = a @ ''products/'' @ d # b \<and> is_digit d"
    proof cases
      case 1
      then obtain d b where "c # cs = [] @ ''products/'' @ d # b \<and> is_digit d" by auto
      then show ?thesis by blast
    next
      case 2
      then obtain a d b where "cs = a @ ''products/'' @ d # b" "is_digit d"
        using Cons.IH by blast
      then have "c # cs = (c # a) @ ''products/'' @ d # b \<and> is_digit d" by simp
      then show ?thesis by blast
    qed
  next
    assume "\<exists>a d b. c # cs = a @ ''products/'' @ d # b \<and> is_digit d"
    then obtain a d b where adb: "c # cs = a @ ''products/'' @ d # b" "is_digit d" by blast
    show "test_products_id (c # cs)"
    proof (cases a)
      case Nil
      then have "\<exists>d b. c # cs = ''products/'' @ d # b \<and> is_digit d" using adb by auto
      then show ?thesis using here by simp
    next
      case (Cons x a')
      then have "cs = a' @ ''products/'' @ d # b" using adb(1) by simp
      then have "test_products_id cs" using Cons.IH adb(2) by blast
      then show ?thesis by simp
    qed
  qed
qed

section \<open>The claims\<close>

subsection \<open>C1: every format fails\<close>

text \<open>
  Claim C1. For every request whose endpoint formats all fail, the call resolves to the
  synthesized response when the synthetic fallback is enabled, and rejects with the
  last failure when it is disabled. The source says as much in its own comment,
  \<^verbatim>\<open>If all endpoint formats fail and mock data is enabled, return mock data\<close>, and the
  cascade does hand the original path and parameters to \<^verbatim>\<open>generateMockData\<close>. For a
  product collection, though, \<^verbatim>\<open>generateMockProducts\<close> calls
  \<^verbatim>\<open>searchFilter.toLowerCase()\<close> on whatever the \<^verbatim>\<open>search\<close> parameter holds. The
  theorem evaluates \<^verbatim>\<open>api.get("products", {search: 5})\<close> against a network that is
  down: all three attempts take place and fail, each with \<^verbatim>\<open>search=5\<close> among the
  entries the URL builder appended, the fallback is enabled, and the call rejects with
  the \<^verbatim>\<open>TypeError\<close> of the generator instead of resolving. The same parameters resolve
  to the sixteen categories on \<^verbatim>\<open>products/categories\<close>, and a number as the
  \<^verbatim>\<open>category\<close> filter is accepted: the generator returns the four products.
\<close>

theorem fallback_rejects_numeric_search:
  "failed (attempt world_down config_unset ''products'' [(''search'', JNum (Fin 5))] ''GET'' JNull 0) \<and>
   failed (attempt world_down config_unset ''products'' [(''search'', JNum (Fin 5))] ''GET'' JNull 1) \<and>
   failed (attempt world_down config_unset ''products'' [(''search'', JNum (Fin 5))] ''GET'' JNull 2) \<and>
   useMockData_option [] \<and>
   settled (api_get world_down config_unset 0 ''products'' [(''search'', JNum (Fin 5))]) =
     Inl (TypeError ''searchFilter.toLowerCase is not a function'') \<and>
   map (url_appended \<circ> fst)
     (fetched (api_get world_down config_unset 0 ''products'' [(''search'', JNum (Fin 5))])) =
     [[(''consumer_key'', []), (''consumer_secret'', []), (''search'', ''5'')],
      [(''consumer_key'', []), (''consumer_secret'', []), (''search'', ''5'')],
      [(''consumer_key'', []), (''consumer_secret'', []), (''search'', ''5'')]] \<and>
   settled (api_get world_down config_unset 0 ''products/categories'' [(''search'', JNum (Fin 5))]) =
     Inr (generateMockCategories []) \<and>
   length (array_items
     (settled (api_get world_down config_unset 0 ''products'' [(''category'', JNum (Fin 53))]))) = 4"
  by code_simp

subsection \<open>C2: the first success ends the cascade\<close>

text \<open>
  Claim C2. Whatever the resource path, the query parameters and the method: when the
  attempt against the endpoint format of index \<open>i\<close> succeeds, that is, every earlier
  attempt has failed, the URL of index \<open>i\<close> builds, \<^verbatim>\<open>fetch\<close> resolves to a response
  with a status in \<open>200..299\<close> and its body parses to \<open>body\<close>, then the request
  resolves to \<open>body\<close> and the calls of \<^verbatim>\<open>fetch\<close> it has made are exactly those of the
  formats \<open>0..i\<close>, in order: the formats after \<open>i\<close> are never attempted. The theorem
  holds for every list of endpoint formats, the three of \<open>API_CONFIG\<close> among them.
\<close>

theorem first_success_short_circuits:
  assumes "i < length (endpointFormats cfg)"
    and "\<forall>j<i. failed (attempt w cfg endpoint params method data j)"
    and "buildWooCommerceUrl w cfg endpoint params i = Inr u"
    and "fetch w i u (make_fetchOptions method data) = Resolved resp"
    and "response_ok resp"
    and "json_body resp = Inr body"
  shows "settled (woocommerceRequest w cfg n endpoint params method data options) = Inr body \<and>
         map Some (fetched (woocommerceRequest w cfg n endpoint params method data options)) =
           map (attempt_call w cfg endpoint params method data) [0..<Suc i] \<and>
         length (fetched (woocommerceRequest w cfg n endpoint params method data options)) = Suc i"
proof -
  let ?um = "useMockData_option options"
  have tf: "try_fetch w i u method data = Inr body"
    using assms(4-6) by (auto simp: try_fetch_success_iff)
  have "\<forall>j. 0 \<le> j \<and> j < 0 + i \<longrightarrow> failed (attempt w cfg endpoint params method data j)"
    using assms(2) by simp
  moreover have "0 + i < length (endpointFormats cfg)" using assms(1) by simp
  ultimately obtain cs where
    cs: "map Some cs = map (attempt_call w cfg endpoint params method data) [0..<0 + i]"
    and r: "request_loop w cfg ?um endpoint params method data n [] 0 =
            request_loop w cfg ?um endpoint params method data n ([] @ cs) (0 + i)"
    using loop_skip[of 0 i w cfg endpoint params "method" data ?um n "[]"] by blast
  have "request_loop w cfg ?um endpoint params method data n cs i =
          \<lparr> settled = Inr body, fetched = cs @ [(u, make_fetchOptions method data)],
            clock_reads = n \<rparr>"
    using assms(1,3) tf by (rule loop_success)
  then have res: "woocommerceRequest w cfg n endpoint params method data options =
          \<lparr> settled = Inr body, fetched = cs @ [(u, make_fetchOptions method data)],
            clock_reads = n \<rparr>"
    using r by (simp add: woocommerceRequest_def)
  have "attempt_call w cfg endpoint params method data i = Some (u, make_fetchOptions method data)"
    using assms(3) by (simp add: attempt_call_def)
  then have "map Some (cs @ [(u, make_fetchOptions method data)]) =
          map (attempt_call w cfg endpoint params method data) [0..<Suc i]"
    using cs by simp
  moreover have "length cs = i"
    using arg_cong[OF cs, of length] by simp
  ultimately show ?thesis using res by simp
qed

theorem first_success_short_circuits_witness:
  "(1::nat) < length (endpointFormats config_unset) \<and>
   failed (attempt world_second config_unset ''products'' [] ''GET'' JNull 0) \<and>
   response_ok \<lparr> status = 200, statusText = ''OK'', json_body = Inr (JArr []) \<rparr> \<and>
   settled (woocommerceRequest world_second config_unset 0 ''products'' [] ''GET'' JNull []) =
     Inr (JArr []) \<and>
   length (fetched (woocommerceRequest world_second config_unset 0 ''products'' [] ''GET'' JNull []))
     = 2"
proof -
  let ?u = "\<lparr> url_input = ''https://example.com/index.php/wp-json/wc/v3/products'',
              url_appended = [(''consumer_key'', []), (''consumer_secret'', [])] \<rparr>"
  let ?resp = "\<lparr> status = 200, statusText = ''OK'', json_body = Inr (JArr []) \<rparr>"
  have h1: "(1::nat) < length (endpointFormats config_unset)" by code_simp
  have f0: "failed (attempt world_second config_unset ''products'' [] ''GET'' JNull 0)"
    by code_simp
  then have h2: "\<forall>j<1. failed (attempt world_second config_unset ''products'' [] ''GET'' JNull j)"
    by simp
  have h3: "buildWooCommerceUrl world_second config_unset ''products'' [] 1 = Inr ?u"
    by code_simp
  have h4: "fetch world_second 1 ?u (make_fetchOptions ''GET'' JNull) = Resolved ?resp"
    by code_simp
  have h5: "response_ok ?resp" by code_simp
  have h6: "json_body ?resp = Inr (JArr [])" by simp
  show ?thesis
    using first_success_short_circuits [OF h1 h2 h3 h4 h5 h6, of 0 "[]"] h1 f0 h5 by simp
qed

subsection \<open>C3: the filters of the product collection\<close>

text \<open>
  Claim C3 says that the generated collection honours the filters: for
  \<^verbatim>\<open>category = "53"\<close> only entries with a category of id 53 or slug
  \<^verbatim>\<open>vinyl-fence\<close>, for \<^verbatim>\<open>search = "gate"\<close> only entries whose name contains
  \<^verbatim>\<open>gate\<close>. The filters of \<^verbatim>\<open>generateMockProducts\<close> select among \<^verbatim>\<open>baseProducts\<close>,
  and each selected entry is then replaced by \<^verbatim>\<open>generateMockProduct(product.id)\<close>, which
  knows the ids 101 and 104 only. The theorem evaluates the code: for
  \<^verbatim>\<open>category = "53"\<close> all four base products are selected, and the entries returned for
  102 and 103 are the generic product, named \<^verbatim>\<open>Mock Product 102\<close> and
  \<^verbatim>\<open>Mock Product 103\<close>, with an empty list of categories; \<^verbatim>\<open>search = "gate"\<close> returns
  the one product named \<^verbatim>\<open>Vinyl Gate\<close>, as claimed, while \<^verbatim>\<open>search = "picket"\<close>
  returns a product whose name is \<^verbatim>\<open>Mock Product 102\<close>.
\<close>

theorem collection_filters_evaluated:
  "map id_name_categories
     (array_items (fst (generateMockData w n ''products'' [(''category'', JStr ''53'')]))) =
     [(JNum (Fin 101), JStr ''Vinyl Privacy Panel'',
         JArr [category_ref 53 ''Vinyl Fence'' ''vinyl-fence'',
               category_ref 289 ''Vinyl Panels'' ''vinyl-panels'']),
      (JNum (Fin 102), JStr ''Mock Product 102'', JArr []),
      (JNum (Fin 103), JStr ''Mock Product 103'', JArr []),
      (JNum (Fin 104), JStr ''Vinyl Gate'',
         JArr [category_ref 53 ''Vinyl Fence'' ''vinyl-fence'',
               category_ref 290 ''Vinyl Gates'' ''vinyl-gates''])] \<and>
   map id_name_categories
     (array_items (fst (generateMockData w n ''products'' [(''search'', JStr ''gate'')]))) =
     [(JNum (Fin 104), JStr ''Vinyl Gate'',
         JArr [category_ref 53 ''Vinyl Fence'' ''vinyl-fence'',
               category_ref 290 ''Vinyl Gates'' ''vinyl-gates''])] \<and>
   map id_name_categories
     (array_items (fst (generateMockData w n ''products'' [(''search'', JStr ''picket'')]))) =
     [(JNum (Fin 102), JStr ''Mock Product 102'', JArr [])]"
  by code_simp

subsection \<open>C4: a body that does not parse\<close>

text \<open>
  Claim C4 says that a JSON-parse fault on a \<open>2xx\<close> response is not retried: the
  cascade would not go on to the remaining endpoint formats. The source has one
  \<^verbatim>\<open>catch\<close> clause for the whole \<^verbatim>\<open>try\<close> block, and \<^verbatim>\<open>response.json()\<close> is awaited
  inside that block, so a parse fault is handled like any other failure. Against a
  server that answers every call with status 200 and a body that is not JSON, the first
  attempt ends in a \<^verbatim>\<open>SyntaxError\<close> and the request still makes all three calls.
\<close>

theorem parse_fault_counterexample:
  "try_fetch world_garbled 0
     \<lparr> url_input = ''https://example.com/wp-json/wc/v3/products'',
       url_appended = [(''consumer_key'', []), (''consumer_secret'', [])] \<rparr> ''GET'' JNull =
     Inl (SyntaxError ''Unexpected token < in JSON'') \<and>
   map (url_input \<circ> fst) (fetched (api_get world_garbled config_unset 0 ''products'' [])) =
     [''https://example.com/wp-json/wc/v3/products'',
      ''https://example.com/index.php/wp-json/wc/v3/products'',
      ''https://example.com/wp-json/wc/v3/products'']"
  by code_simp

text \<open>
  Claim C4, amended. A JSON-parse fault on a \<open>2xx\<close> response fails that attempt like
  any other failure: when every earlier attempt has failed, the response to the attempt
  of index \<open>i\<close> has a status in \<open>200..299\<close> and its body does not parse, and \<open>i\<close> is
  not the last endpoint format, then the attempt counts as failed with the parse error
  and the cascade goes on: provided the next candidate URL builds, the call for the
  format \<open>i + 1\<close> is made.
\<close>

theorem parse_fault_moves_to_next_format:
  assumes "Suc i < length (endpointFormats cfg)"
    and "\<forall>j<i. failed (attempt w cfg endpoint params method data j)"
    and "buildWooCommerceUrl w cfg endpoint params i = Inr u"
    and "fetch w i u (make_fetchOptions method data) = Resolved resp"
    and "response_ok resp"
    and "json_body resp = Inl err"
    and "attempt_call w cfg endpoint params method data (Suc i) = Some c"
  shows "attempt w cfg endpoint params method data i = Some (Inl err) \<and>
         Suc i < length (fetched (woocommerceRequest w cfg n endpoint params method data options)) \<and>
         fetched (woocommerceRequest w cfg n endpoint params method data options) ! Suc i = c"
proof -
  let ?um = "useMockData_option options"
  let ?opts = "make_fetchOptions method data"
  have tf: "try_fetch w i u method data = Inl err"
    using assms(4-6) by (simp add: try_fetch_def)
  then have a: "attempt w cfg endpoint params method data i = Some (Inl err)"
    using assms(3) by (simp add: attempt_def)
  have "\<forall>j. 0 \<le> j \<and> j < 0 + i \<longrightarrow> failed (attempt w cfg endpoint params method data j)"
    using assms(2) by simp
  moreover have "0 + i < length (endpointFormats cfg)" using assms(1) by simp
  ultimately obtain cs where
    cs: "map Some cs = map (attempt_call w cfg endpoint params method data) [0..<0 + i]"
    and r: "request_loop w cfg ?um endpoint params method data n [] 0 =
            request_loop w cfg ?um endpoint params method data n ([] @ cs) (0 + i)"
    using loop_skip[of 0 i w cfg endpoint params "method" data ?um n "[]"] by blast
  have lcs: "length cs = i" using arg_cong[OF cs, of length] by simp
  have step: "request_loop w cfg ?um endpoint params method data n cs i =
                request_loop w cfg ?um endpoint params method data n (cs @ [(u, ?opts)]) (Suc i)"
    using assms(1,3) tf by (rule loop_fail_next)
  obtain u' where u': "buildWooCommerceUrl w cfg endpoint params (Suc i) = Inr u'"
    and c: "c = (u', ?opts)"
    using assms(7) by (auto simp: attempt_call_def split: sum.splits)
  obtain rest where
    "fetched (request_loop w cfg ?um endpoint params method data n (cs @ [(u, ?opts)]) (Suc i)) =
       (cs @ [(u, ?opts)]) @ (u', ?opts) # rest"
    using loop_makes_call [OF assms(1) u'] by blast
  then have f: "fetched (woocommerceRequest w cfg n endpoint params method data options) =
                  (cs @ [(u, ?opts)]) @ c # rest"
    using r step c by (simp add: woocommerceRequest_def)
  have "length (cs @ [(u, ?opts)]) = Suc i" using lcs by simp
  then have "((cs @ [(u, ?opts)]) @ c # rest) ! Suc i = c"
    by (metis nth_append_length)
  moreover have "Suc i < length ((cs @ [(u, ?opts)]) @ c # rest)" using lcs by simp
  ultimately show ?thesis using a f by simp
qed

theorem parse_fault_moves_to_next_format_witness:
  "Suc 0 < length (endpointFormats config_unset) \<and>
   response_ok \<lparr> status = 200, statusText = ''OK'',
                 json_body = Inl (SyntaxError ''Unexpected token < in JSON'') \<rparr> \<and>
   attempt world_garbled config_unset ''products'' [] ''GET'' JNull 0 =
     Some (Inl (SyntaxError ''Unexpected token < in JSON'')) \<and>
   fetched (woocommerceRequest world_garbled config_unset 0 ''products'' [] ''GET'' JNull []) ! Suc 0 =
     (\<lparr> url_input = ''https://example.com/index.php/wp-json/wc/v3/products'',
        url_appended = [(''consumer_key'', []), (''consumer_secret'', [])] \<rparr>,
      make_fetchOptions ''GET'' JNull)"
proof -
  let ?u0 = "\<lparr> url_input = ''https://example.com/wp-json/wc/v3/products'',
               url_appended = [(''consumer_key'', []), (''consumer_secret'', [])] \<rparr>"
  let ?u1 = "\<lparr> url_input = ''https://example.com/index.php/wp-json/wc/v3/products'',
               url_appended = [(''consumer_key'', []), (''consumer_secret'', [])] \<rparr>"
  let ?resp = "\<lparr> status = 200, statusText = ''OK'',
                 json_body = Inl (SyntaxError ''Unexpected token < in JSON'') \<rparr>"
  have h1: "Suc 0 < length (endpointFormats config_unset)" by code_simp
  have h2: "\<forall>j<0. failed (attempt world_garbled config_unset ''products'' [] ''GET'' JNull j)"
    by simp
  have h3: "buildWooCommerceUrl world_garbled config_unset ''products'' [] 0 = Inr ?u0"
    by code_simp
  have h4: "fetch world_garbled 0 ?u0 (make_fetchOptions ''GET'' JNull) = Resolved ?resp"
    by code_simp
  have h5: "response_ok ?resp" by code_simp
  have h6: "json_body ?resp = Inl (SyntaxError ''Unexpected token < in JSON'')" by simp
  have h7: "attempt_call world_garbled config_unset ''products'' [] ''GET'' JNull (Suc 0) =
              Some (?u1, make_fetchOptions ''GET'' JNull)"
    by code_simp
  show ?thesis
    using parse_fault_moves_to_next_format [OF h1 h2 h3 h4 h5 h6 h7, of 0 "[]"] h1 h5 by simp
qed

subsection \<open>C5: is the generator deterministic?\<close>




subsection \<open>C6: a single product\<close>

text \<open>
  Claim C6. The product generated for id 101 is named \<^verbatim>\<open>Vinyl Privacy Panel\<close> and its
  one attribute named \<^verbatim>\<open>Width\<close> has the options \<^verbatim>\<open>6 ft\<close> and \<^verbatim>\<open>8 ft\<close>. The
  product generated for any id without a hand-written override, that is any number
  other than 101 and 104, \<open>NaN\<close> included, carries \<^verbatim>\<open>fallback: true\<close> and a non-empty
  \<^verbatim>\<open>attributes\<close> list, the default attributes of the last return statement. (The
  separate property \<^verbatim>\<open>default_attributes\<close> of the template stays the empty array.)
  The paths \<^verbatim>\<open>products/101\<close> and \<^verbatim>\<open>products/999\<close> lead \<^verbatim>\<open>generateMockData\<close> to
  these two products.
\<close>

theorem single_product:
  "get_prop (fst (generateMockProduct w n (Fin 101))) ''name'' = JStr ''Vinyl Privacy Panel'' \<and>
   (\<exists>attrs. get_prop (fst (generateMockProduct w n (Fin 101))) ''attributes'' = JArr attrs \<and>
      map (\<lambda>a. get_prop a ''options'') (filter (\<lambda>a. get_prop a ''name'' = JStr ''Width'') attrs) =
        [JArr [JStr ''6 ft'', JStr ''8 ft'']]) \<and>
   (\<forall>productId. productId \<noteq> Fin 101 \<and> productId \<noteq> Fin 104 \<longrightarrow>
      get_prop (fst (generateMockProduct w n productId)) ''fallback'' = JBool True \<and>
      (\<exists>a attrs. get_prop (fst (generateMockProduct w n productId)) ''attributes'' = JArr (a # attrs))) \<and>
   fst (generateMockData w n ''products/101'' params) = Inr (fst (generateMockProduct w n (Fin 101))) \<and>
   fst (generateMockData w n ''products/999'' params) = Inr (fst (generateMockProduct w n (Fin 999)))"
proof -
  have name: "get_prop (fst (generateMockProduct w n (Fin 101))) ''name'' = JStr ''Vinyl Privacy Panel''"
    by (simp add: generateMockProduct_def num_eq_def obj_get_def map_of_spread
        vinyl_privacy_panel_def)
  have attrs: "get_prop (fst (generateMockProduct w n (Fin 101))) ''attributes'' =
                 JArr [attribute 1 ''Width'' 0 True False [''6 ft'', ''8 ft''],
                       attribute 2 ''Height'' 1 True False [''4 ft'', ''6 ft'', ''8 ft''],
                       attribute 3 ''Color'' 2 True False [''White'', ''Almond'']]"
    by (simp add: generateMockProduct_def num_eq_def obj_get_def map_of_spread
        vinyl_privacy_panel_def)
  have width: "map (\<lambda>a. get_prop a ''options'')
                 (filter (\<lambda>a. get_prop a ''name'' = JStr ''Width'')
                    [attribute 1 ''Width'' 0 True False [''6 ft'', ''8 ft''],
                     attribute 2 ''Height'' 1 True False [''4 ft'', ''6 ft'', ''8 ft''],
                     attribute 3 ''Color'' 2 True False [''White'', ''Almond'']]) =
               [JArr [JStr ''6 ft'', JStr ''8 ft'']]"
    by (simp add: attribute_def obj_get_def)
  have other: "get_prop (fst (generateMockProduct w n productId)) ''fallback'' = JBool True \<and>
      (\<exists>a attrs. get_prop (fst (generateMockProduct w n productId)) ''attributes'' = JArr (a # attrs))"
    if "productId \<noteq> Fin 101 \<and> productId \<noteq> Fin 104" for productId
    using that
    by (simp add: generateMockProduct_def num_eq_def obj_get_def map_of_spread
        default_mock_product_def)
  have p101: "parseInt (split_pop ''products/101'') = Fin 101" by code_simp
  have p999: "parseInt (split_pop ''products/999'') = Fin 999" by code_simp
  have t101: "str_includes ''products/101'' ''products'' \<and>
              \<not> str_includes ''products/101'' ''categories'' \<and> test_products_id ''products/101''"
    by code_simp
  have t999: "str_includes ''products/999'' ''products'' \<and>
              \<not> str_includes ''products/999'' ''categories'' \<and> test_products_id ''products/999''"
    by code_simp
  have d101: "fst (generateMockData w n ''products/101'' params) =
                Inr (fst (generateMockProduct w n (Fin 101)))"
    unfolding generateMockData_def using t101 p101 by (simp add: case_prod_beta)
  have d999: "fst (generateMockData w n ''products/999'' params) =
                Inr (fst (generateMockProduct w n (Fin 999)))"
    unfolding generateMockData_def using t999 p999 by (simp add: case_prod_beta)
  show ?thesis using name attrs width other d101 d999 by simp
qed

theorem single_product_witness:
  "Fin 999 \<noteq> Fin 101 \<and> Fin 999 \<noteq> Fin 104 \<and>
   get_prop (fst (generateMockProduct world_down 0 (Fin 999))) ''fallback'' = JBool True \<and>
   get_prop (fst (generateMockProduct world_down 0 (Fin 999))) ''name'' = JStr ''Mock Product 999'' \<and>
   get_prop (fst (generateMockProduct world_down 0 (Fin 999))) ''attributes'' =
     JArr [attribute 1 ''Width'' 0 True False [''6 ft'', ''8 ft''],
           attribute 2 ''Height'' 1 True False [''4 ft'', ''6 ft'']]"
proof -
  have h: "Fin 999 \<noteq> Fin 101 \<and> Fin 999 \<noteq> Fin 104" by simp
  have a: "get_prop (fst (generateMockProduct world_down 0 (Fin 999))) ''attributes'' =
     JArr [attribute 1 ''Width'' 0 True False [''6 ft'', ''8 ft''],
           attribute 2 ''Height'' 1 True False [''4 ft'', ''6 ft'']]"
    by code_simp
  have b: "get_prop (fst (generateMockProduct world_down 0 (Fin 999))) ''name'' =
             JStr ''Mock Product 999''"
    by code_simp
  show ?thesis
    using single_product [of world_down 0 "[]"] h a b by blast
qed

subsection \<open>C7: the credentials in the URL\<close>

text \<open>
  Claim C7 says that the URL built for a request always contains the
  \<^verbatim>\<open>consumer_key\<close> and \<^verbatim>\<open>consumer_secret\<close> query parameters, for every query
  parameters. In the source the credentials are the first two properties of
  \<^verbatim>\<open>allParams\<close> and the query parameters are spread over them, so a parameter of the
  same name replaces the credential; the loop then skips it when its value is
  \<^verbatim>\<open>undefined\<close> or \<^verbatim>\<open>null\<close>. With the query parameters
  \<^verbatim>\<open>{consumer_key: null}\<close> the URL has no \<^verbatim>\<open>consumer_key\<close> entry at all.
\<close>

theorem credentials_counterexample:
  "buildWooCommerceUrl world_down config_shop ''products'' [(''consumer_key'', JNull)] 0 =
     Inr \<lparr> url_input = ''https://www.shop.test/wp-json/wc/v3/products'',
           url_appended = [(''consumer_secret'', ''cs_1'')] \<rparr>"
  by code_simp

text \<open>
  Claim C7, amended. For every resource path, every template index and all query
  parameters that do not bind \<^verbatim>\<open>consumer_key\<close> or \<^verbatim>\<open>consumer_secret\<close> to
  \<^verbatim>\<open>undefined\<close> or \<^verbatim>\<open>null\<close>, the URL built contains both parameters. Where the
  query parameters do not bind them at all, their values are the configured
  credentials, and a credential that is not configured (the environment variable is
  unset or empty) appears with the empty string as its value: the key is not omitted.
  (The theorem reads the query parameters as an object, no key twice, and speaks of the
  URLs the platform's parser accepts.)
\<close>

theorem credentials_always_present:
  assumes "is_object params"
    and "buildWooCommerceUrl w (API_CONFIG (url_hostname w) e) endpoint params i = Inr u"
    and "\<not> voided params ''consumer_key''"
    and "\<not> voided params ''consumer_secret''"
  shows "''consumer_key'' \<in> fst ` set (url_appended u) \<and>
         ''consumer_secret'' \<in> fst ` set (url_appended u) \<and>
         (obj_get params ''consumer_key'' = None \<longrightarrow>
            (''consumer_key'', consumerKey (API_CONFIG (url_hostname w) e)) \<in> set (url_appended u)) \<and>
         (obj_get params ''consumer_secret'' = None \<longrightarrow>
            (''consumer_secret'', consumerSecret (API_CONFIG (url_hostname w) e))
              \<in> set (url_appended u)) \<and>
         (REACT_APP_WOOCOMMERCE_CONSUMER_KEY e \<in> {None, Some []} \<longrightarrow>
            consumerKey (API_CONFIG (url_hostname w) e) = []) \<and>
         (REACT_APP_WOOCOMMERCE_CONSUMER_SECRET e \<in> {None, Some []} \<longrightarrow>
            consumerSecret (API_CONFIG (url_hostname w) e) = [])"
proof -
  let ?cfg = "API_CONFIG (url_hostname w) e"
  let ?all = "spread [(''consumer_key'', JStr (consumerKey ?cfg)),
                      (''consumer_secret'', JStr (consumerSecret ?cfg))] params"
  have u: "url_appended u = query_entries ?all"
    using assms(2) by (auto simp: buildWooCommerceUrl_def Let_def split: option.splits)
  obtain v1 where v1: "map_of ?all ''consumer_key'' = Some v1" "v1 \<noteq> JUndefined" "v1 \<noteq> JNull"
    "obj_get params ''consumer_key'' = None \<longrightarrow> v1 = JStr (consumerKey ?cfg)"
    using credential_entry [OF assms(1) _ assms(3), of "consumerKey ?cfg" "consumerSecret ?cfg"]
    by auto
  obtain v2 where v2: "map_of ?all ''consumer_secret'' = Some v2" "v2 \<noteq> JUndefined" "v2 \<noteq> JNull"
    "obj_get params ''consumer_secret'' = None \<longrightarrow> v2 = JStr (consumerSecret ?cfg)"
    using credential_entry [OF assms(1) _ assms(4), of "consumerKey ?cfg" "consumerSecret ?cfg"]
    by auto
  have e1: "(''consumer_key'', to_string v1) \<in> set (url_appended u)"
    unfolding u in_query_entries using v1(1-3) by blast
  have e2: "(''consumer_secret'', to_string v2) \<in> set (url_appended u)"
    unfolding u in_query_entries using v2(1-3) by blast
  have k1: "''consumer_key'' \<in> fst ` set (url_appended u)"
    using e1 by (rule rev_image_eqI) simp
  have k2: "''consumer_secret'' \<in> fst ` set (url_appended u)"
    using e2 by (rule rev_image_eqI) simp
  have c1: "obj_get params ''consumer_key'' = None \<longrightarrow>
              (''consumer_key'', consumerKey ?cfg) \<in> set (url_appended u)"
    using e1 v1(4) by auto
  have c2: "obj_get params ''consumer_secret'' = None \<longrightarrow>
              (''consumer_secret'', consumerSecret ?cfg) \<in> set (url_appended u)"
    using e2 v2(4) by auto
  have d1: "REACT_APP_WOOCOMMERCE_CONSUMER_KEY e \<in> {None, Some []} \<longrightarrow> consumerKey ?cfg = []"
    by (auto simp: API_CONFIG_def or_default_def)
  have d2: "REACT_APP_WOOCOMMERCE_CONSUMER_SECRET e \<in> {None, Some []} \<longrightarrow>
              consumerSecret ?cfg = []"
    by (auto simp: API_CONFIG_def or_default_def)
  show ?thesis using k1 k2 c1 c2 d1 d2 by blast
qed

theorem credentials_always_present_witness:
  "is_object [(''parent'', JNum (Fin 0)), (''per_page'', JNum (Fin 20))] \<and>
   \<not> voided [(''parent'', JNum (Fin 0)), (''per_page'', JNum (Fin 20))] ''consumer_key'' \<and>
   \<not> voided [(''parent'', JNum (Fin 0)), (''per_page'', JNum (Fin 20))] ''consumer_secret'' \<and>
   buildWooCommerceUrl world_down (API_CONFIG (url_hostname world_down) env_unset)
       ''products/categories'' [(''parent'', JNum (Fin 0)), (''per_page'', JNum (Fin 20))] 1 =
     Inr \<lparr> url_input = ''https://example.com/index.php/wp-json/wc/v3/products/categories'',
           url_appended = [(''consumer_key'', []), (''consumer_secret'', []),
                           (''parent'', ''0''), (''per_page'', ''20'')] \<rparr> \<and>
   (''consumer_key'', []) \<in> set [(''consumer_key'', []), (''consumer_secret'', []),
                                  (''parent'', ''0''), (''per_page'', ''20'')] \<and>
   (''consumer_secret'', []) \<in> set [(''consumer_key'', []), (''consumer_secret'', []),
                                     (''parent'', ''0''), (''per_page'', ''20'')]"
proof -
  let ?ps = "[(''parent'', JNum (Fin 0)), (''per_page'', JNum (Fin 20))]"
  let ?u = "\<lparr> url_input = ''https://example.com/index.php/wp-json/wc/v3/products/categories'',
              url_appended = [(''consumer_key'', []), (''consumer_secret'', []),
                              (''parent'', ''0''), (''per_page'', ''20'')] \<rparr>"
  have h1: "is_object ?ps" by code_simp
  have h2: "buildWooCommerceUrl world_down (API_CONFIG (url_hostname world_down) env_unset)
              ''products/categories'' ?ps 1 = Inr ?u"
    by code_simp
  have h3: "\<not> voided ?ps ''consumer_key''" by code_simp
  have h4: "\<not> voided ?ps ''consumer_secret''" by code_simp
  have n1: "obj_get ?ps ''consumer_key'' = None" by code_simp
  have n2: "obj_get ?ps ''consumer_secret'' = None" by code_simp
  have un: "REACT_APP_WOOCOMMERCE_CONSUMER_KEY env_unset \<in> {None, Some []}"
    "REACT_APP_WOOCOMMERCE_CONSUMER_SECRET env_unset \<in> {None, Some []}"
    by (simp_all add: env_unset_def)
  show ?thesis
    using credentials_always_present [OF h1 h2 h3 h4] h1 h2 h3 h4 n1 n2 un by simp
qed

subsection \<open>C8: URL resolution\<close>

text \<open>
  Claim C8 says that URL resolution appends the credentials and all query parameters.
  The credentials are appended only where the query parameters leave their keys
  alone: a parameter named \<^verbatim>\<open>consumer_key\<close> takes the place of the configured key.
  With the key \<^verbatim>\<open>ck_1\<close> configured and the query parameters
  \<^verbatim>\<open>{consumer_key: "ck_other"}\<close>, the URL carries \<^verbatim>\<open>ck_other\<close> and the configured
  key is not appended.
\<close>

theorem url_resolution_counterexample:
  "consumerKey config_shop = ''ck_1'' \<and>
   buildWooCommerceUrl world_down config_shop ''products'' [(''consumer_key'', JStr ''ck_other'')] 0 =
     Inr \<lparr> url_input = ''https://www.shop.test/wp-json/wc/v3/products'',
           url_appended = [(''consumer_key'', ''ck_other''), (''consumer_secret'', ''cs_1'')] \<rparr>"
  by code_simp

text \<open>
  Claim C8, amended. URL resolution combines the endpoint-format template at the given
  index with the resource path, an index out of range standing for the first template,
  and appends as query-string entries every query parameter whose value is neither
  \<^verbatim>\<open>undefined\<close> nor \<^verbatim>\<open>null\<close>, and each credential whose key the query parameters do
  not bind. Nothing else is appended, and no key is appended twice. (The theorem reads
  the query parameters as an object, no key twice, and speaks of the URLs the
  platform's parser accepts; the configuration is the one read from the environment.)
\<close>

theorem url_resolution:
  assumes "is_object params"
    and "buildWooCommerceUrl w (API_CONFIG (url_hostname w) e) endpoint params i = Inr u"
  shows "url_input u =
           endpointFormats (API_CONFIG (url_hostname w) e) ! (if i < 3 then i else 0)
             @ ''/'' @ endpoint \<and>
         (\<forall>k s. (k, s) \<in> set (url_appended u) \<longleftrightarrow>
            (case obj_get params k of
               Some v \<Rightarrow> v \<noteq> JUndefined \<and> v \<noteq> JNull \<and> s = to_string v
             | None \<Rightarrow>
                 (k = ''consumer_key'' \<and> s = consumerKey (API_CONFIG (url_hostname w) e)) \<or>
                 (k = ''consumer_secret'' \<and> s = consumerSecret (API_CONFIG (url_hostname w) e)))) \<and>
         distinct (map fst (url_appended u))"
proof -
  let ?cfg = "API_CONFIG (url_hostname w) e"
  let ?all = "spread [(''consumer_key'', JStr (consumerKey ?cfg)),
                      (''consumer_secret'', JStr (consumerSecret ?cfg))] params"
  have sel: "select_format ?cfg i = Some (endpointFormats ?cfg ! (if i < 3 then i else 0))"
    by (rule select_format_API_CONFIG)
  have inp: "url_input u = endpointFormats ?cfg ! (if i < 3 then i else 0) @ ''/'' @ endpoint"
    using assms(2) unfolding buildWooCommerceUrl_def Let_def sel
    by (auto split: option.splits)
  have app: "url_appended u = query_entries ?all"
    using assms(2) by (auto simp: buildWooCommerceUrl_def Let_def split: option.splits)
  have mem: "(k, s) \<in> set (url_appended u) \<longleftrightarrow>
            (case obj_get params k of
               Some v \<Rightarrow> v \<noteq> JUndefined \<and> v \<noteq> JNull \<and> s = to_string v
             | None \<Rightarrow>
                 (k = ''consumer_key'' \<and> s = consumerKey ?cfg) \<or>
                 (k = ''consumer_secret'' \<and> s = consumerSecret ?cfg))" for k s
    unfolding app in_query_entries map_of_allParams [OF assms(1)] obj_get_def
    by (cases "map_of params k") auto
  have "distinct (map fst ?all)" by (rule distinct_spread) simp
  then have dis: "distinct (map fst (url_appended u))"
    unfolding app by (rule distinct_query_entries)
  show ?thesis using inp mem dis by blast
qed

theorem url_resolution_witness:
  "is_object [(''per_page'', JNum (Fin 20)), (''page'', JUndefined), (''search'', JStr ''gate'')] \<and>
   buildWooCommerceUrl world_down (API_CONFIG (url_hostname world_down) env_shop) ''products''
       [(''per_page'', JNum (Fin 20)), (''page'', JUndefined), (''search'', JStr ''gate'')] 7 =
     Inr \<lparr> url_input = ''https://www.shop.test/wp-json/wc/v3/products'',
           url_appended = [(''consumer_key'', ''ck_1''), (''consumer_secret'', ''cs_1''),
                           (''per_page'', ''20''), (''search'', ''gate'')] \<rparr> \<and>
   ''https://www.shop.test/wp-json/wc/v3/products'' =
     endpointFormats (API_CONFIG (url_hostname world_down) env_shop) ! 0 @ ''/'' @ ''products''"
proof -
  let ?ps = "[(''per_page'', JNum (Fin 20)), (''page'', JUndefined), (''search'', JStr ''gate'')]"
  let ?u = "\<lparr> url_input = ''https://www.shop.test/wp-json/wc/v3/products'',
              url_appended = [(''consumer_key'', ''ck_1''), (''consumer_secret'', ''cs_1''),
                              (''per_page'', ''20''), (''search'', ''gate'')] \<rparr>"
  have h1: "is_object ?ps" by code_simp
  have h2: "buildWooCommerceUrl world_down (API_CONFIG (url_hostname world_down) env_shop)
              ''products'' ?ps 7 = Inr ?u"
    by code_simp
  show ?thesis
    using url_resolution [OF h1 h2] h1 h2 by simp
qed

subsection \<open>C9: paths outside the product catalogue\<close>

text \<open>
  Claim C9. For every endpoint string that does not contain \<^verbatim>\<open>products\<close> as a
  substring, and for every query parameters, \<^verbatim>\<open>generateMockData\<close> returns the empty
  array (and reads no clock).
\<close>

theorem no_products_no_data:
  assumes "\<not> str_includes endpoint ''products''"
  shows "generateMockData w n endpoint params = (Inr (JArr []), n)"
  using assms by (simp add: generateMockData_def)

theorem no_products_no_data_witness:
  "\<not> str_includes ''orders/17'' ''products'' \<and>
   generateMockData world_down 0 ''orders/17'' [(''status'', JStr ''any'')] = (Inr (JArr []), 0)"
proof -
  have h: "\<not> str_includes ''orders/17'' ''products''" by code_simp
  show ?thesis using no_products_no_data [OF h] h by simp
qed

subsection \<open>C10: the alternative domains\<close>

text \<open>
  Claim C10. Requests never consult \<^verbatim>\<open>alternativeDomains\<close>: every candidate URL is
  built from \<^verbatim>\<open>endpointFormats\<close> and the two credentials. Two configurations that
  differ in their alternative domains only give the same candidate URL for every
  index, and the same outcome (settlement, calls made, clock readings) for every
  request. In particular the outcome does not depend on what \<^verbatim>\<open>getAlternativeUrls\<close>
  computed when the module was loaded: configurations read from one environment
  through two URL parsers, which may yield different alternative domains, behave alike.
\<close>

theorem alternative_domains_unused:
  assumes "endpointFormats cfg' = endpointFormats cfg"
    and "consumerKey cfg' = consumerKey cfg"
    and "consumerSecret cfg' = consumerSecret cfg"
  shows "woocommerceRequest w cfg' n endpoint params method data options =
           woocommerceRequest w cfg n endpoint params method data options \<and>
         buildWooCommerceUrl w cfg' endpoint params i = buildWooCommerceUrl w cfg endpoint params i \<and>
         woocommerceRequest w (API_CONFIG h' e) n endpoint params method data options =
           woocommerceRequest w (API_CONFIG h e) n endpoint params method data options"
proof -
  have a: "woocommerceRequest w cfg' n endpoint params method data options =
           woocommerceRequest w cfg n endpoint params method data options"
    unfolding woocommerceRequest_def using assms by (rule loop_reads)
  have b: "buildWooCommerceUrl w cfg' endpoint params i = buildWooCommerceUrl w cfg endpoint params i"
    using assms by (rule build_reads)
  have c: "woocommerceRequest w (API_CONFIG h' e) n endpoint params method data options =
           woocommerceRequest w (API_CONFIG h e) n endpoint params method data options"
    unfolding woocommerceRequest_def by (rule loop_reads) (simp_all add: API_CONFIG_def)
  show ?thesis using a b c by simp
qed

theorem alternative_domains_unused_witness:
  "endpointFormats (config_shop\<lparr>alternativeDomains := [''https://mirror.test'']\<rparr>) =
     endpointFormats config_shop \<and>
   consumerKey (config_shop\<lparr>alternativeDomains := [''https://mirror.test'']\<rparr>) =
     consumerKey config_shop \<and>
   consumerSecret (config_shop\<lparr>alternativeDomains := [''https://mirror.test'']\<rparr>) =
     consumerSecret config_shop \<and>
   alternativeDomains config_shop = [''https://shop.test''] \<and>
   woocommerceRequest world_second (config_shop\<lparr>alternativeDomains := [''https://mirror.test'']\<rparr>)
       0 ''products'' [] ''GET'' JNull [] =
     woocommerceRequest world_second config_shop 0 ''products'' [] ''GET'' JNull []"
proof -
  let ?cfg' = "config_shop\<lparr>alternativeDomains := [''https://mirror.test'']\<rparr>"
  have h1: "endpointFormats ?cfg' = endpointFormats config_shop" by simp
  have h2: "consumerKey ?cfg' = consumerKey config_shop" by simp
  have h3: "consumerSecret ?cfg' = consumerSecret config_shop" by simp
  have d: "alternativeDomains config_shop = [''https://shop.test'']" by code_simp
  show ?thesis
    using alternative_domains_unused [OF h1 h2 h3, of world_second 0 "''products''" "[]"
        "''GET''" JNull "[]"] h1 h2 h3 d
    by simp
qed

end
